theory Spec2Isabelle
  imports Complex_Main "HOL-Library.AList"
begin

section \<open>Numbers\<close>

text \<open>
  The TypeScript sources compute with \<open>number\<close>.  Widths, densities and the size
  threshold are modelled as exact rationals, and a width after \<open>Math.round\<close> as an
  integer.  \<open>Math.round\<close> rounds to the nearest integer, a tie towards plus infinity.
\<close>

definition Math_round :: "rat \<Rightarrow> int" where
  "Math_round x = \<lfloor>x + 1 / 2\<rfloor>"

section \<open>Size consolidation (processImageRequest, lines 30 to 57)\<close>

record SizeSpec =
  density :: rat
  width :: rat
  actualWidth :: int

record ImageBreakpoint =
  maxWidth :: "rat option"
  imageWidth :: rat

text \<open>
  \<open>sizeSpecKey\<close> builds the string \<open>`${width}@${density}`\<close>.  The string of a number
  determines the number, so the key is kept as the pair it is printed from.
\<close>

type_synonym sizeKey = "rat \<times> rat"

definition sizeSpecKey :: "rat \<Rightarrow> rat \<Rightarrow> sizeKey" where
  "sizeSpecKey w d = (w, d)"

text \<open>The two nested loops that push one entry per breakpoint and density.\<close>

definition allSizes :: "ImageBreakpoint list \<Rightarrow> rat list \<Rightarrow> SizeSpec list" where
  "allSizes breakpoints pixelDensities =
     concat (map (\<lambda>b. map (\<lambda>d. \<lparr>density = d, width = imageWidth b,
                                  actualWidth = Math_round (imageWidth b * d)\<rparr>)
                          pixelDensities)
                 breakpoints)"

text \<open>
  \<open>allSizes.sort((a, b) => b.actualWidth - a.actualWidth)\<close>: a stable sort,
  largest actual width first.
\<close>

definition sortSizes :: "SizeSpec list \<Rightarrow> SizeSpec list" where
  "sortSizes xs = sort_key (\<lambda>s. - actualWidth s) xs"

text \<open>
  The loop over the sorted sizes, with the variable \<open>lastUsedSize\<close> and the record
  \<open>consolidatedSizes\<close> as arguments.
\<close>

fun consolidateLoop ::
  "rat \<Rightarrow> SizeSpec list \<Rightarrow> SizeSpec option \<Rightarrow> (sizeKey \<rightharpoonup> SizeSpec) \<Rightarrow> (sizeKey \<rightharpoonup> SizeSpec)"
where
  "consolidateLoop sizeThreshold [] lastUsedSize consolidated = consolidated"
| "consolidateLoop sizeThreshold (sz # rest) lastUsedSize consolidated =
     (case lastUsedSize of
        None \<Rightarrow>
          consolidateLoop sizeThreshold rest (Some sz)
            (consolidated(sizeSpecKey (width sz) (density sz) \<mapsto> sz))
      | Some l \<Rightarrow>
          if of_int (actualWidth l) * sizeThreshold \<le> of_int (actualWidth sz)
          then consolidateLoop sizeThreshold rest lastUsedSize
                 (consolidated(sizeSpecKey (width sz) (density sz) \<mapsto>
                    sz\<lparr>actualWidth := actualWidth l\<rparr>))
          else consolidateLoop sizeThreshold rest (Some sz)
                 (consolidated(sizeSpecKey (width sz) (density sz) \<mapsto> sz)))"

definition consolidatedSizes ::
  "ImageBreakpoint list \<Rightarrow> rat list \<Rightarrow> rat \<Rightarrow> (sizeKey \<rightharpoonup> SizeSpec)" where
  "consolidatedSizes breakpoints pixelDensities sizeThreshold =
     consolidateLoop sizeThreshold (sortSizes (allSizes breakpoints pixelDensities))
       None Map.empty"

subsection \<open>Auxiliary notions for the consolidation proofs\<close>

text \<open>The key an entry is stored under, and the actual width a key is enumerated with.\<close>

definition keyOf :: "SizeSpec \<Rightarrow> sizeKey" where
  "keyOf s = sizeSpecKey (width s) (density s)"

definition orig :: "sizeKey \<Rightarrow> int" where
  "orig k = Math_round (fst k * snd k)"

text \<open>
  The invariant of the consolidation loop.  Every stored width is at least the width its
  key was enumerated with, and is the enumerated width of a key that is stored unchanged
  (\<open>mapInv\<close>); every stored width is at least the width of the sizes still to come and
  of the last used size, and the last used size is stored unchanged (\<open>walkInv\<close>).
\<close>

definition mapInv :: "(sizeKey \<rightharpoonup> SizeSpec) \<Rightarrow> bool" where
  "mapInv m \<longleftrightarrow>
     (\<forall>k s. m k = Some s \<longrightarrow>
        orig k \<le> actualWidth s \<and>
        (\<exists>k' s'. m k' = Some s' \<and> actualWidth s' = orig k' \<and> orig k' = actualWidth s))"

definition walkInv :: "SizeSpec list \<Rightarrow> SizeSpec option \<Rightarrow> (sizeKey \<rightharpoonup> SizeSpec) \<Rightarrow> bool" where
  "walkInv xs lu m \<longleftrightarrow>
     mapInv m \<and>
     (\<forall>k s x. m k = Some s \<longrightarrow> x \<in> set xs \<longrightarrow> actualWidth x \<le> actualWidth s) \<and>
     (\<forall>k s l. m k = Some s \<longrightarrow> lu = Some l \<longrightarrow> actualWidth l \<le> actualWidth s) \<and>
     (\<forall>l. lu = Some l \<longrightarrow>
        (\<exists>s'. m (keyOf l) = Some s' \<and> actualWidth s' = actualWidth l) \<and>
        actualWidth l = orig (keyOf l) \<and>
        (\<forall>x\<in>set xs. actualWidth x \<le> actualWidth l))"

section \<open>The key-value stores (string-kv-store.ts), one call at a time\<close>

text \<open>
  A stored value has the type \<open>string | null\<close>; a value that may also be
  \<open>undefined\<close> is a \<open>val option\<close>, with \<open>None\<close> for \<open>undefined\<close>.  An exception is
  a value \<open>Error message\<close>, and a function that may throw returns a sum whose left
  side is the exception.
\<close>

datatype val = Str string | Null

datatype error = Error string

text \<open>
  A \<open>FactoryFunction\<close> is code of the caller: beside returning a value or throwing
  it may change the caller's own state, the world \<open>'w\<close>.
\<close>

type_synonym 'w factory = "string \<Rightarrow> 'w \<Rightarrow> (error + val) \<times> 'w"

text \<open>
  In this section every call is awaited before the next one is issued.  Between two
  calls every promise held by a store is fulfilled (a placeholder is deleted before the
  call that stored it ends), so the stores hold the values.
  Calls that overlap are the subject of the section on overlapping calls below.
\<close>

subsection \<open>The function defer (lines 11 to 20)\<close>

text \<open>
  \<open>defer\<close> declares the constant \<open>defer\<close> and initialises it with a new promise whose
  executor assigns to \<open>defer.resolve\<close>.  The executor runs inside the constructor,
  before the constant is initialised, so the assignment throws and the constructor
  turns the exception into the rejection of the promise.  What \<open>defer()\<close> returns is
  therefore a promise that is rejected already and has no property \<open>resolve\<close>:
  awaiting it throws the exception of the executor, and calling \<open>promise.resolve(v)\<close>
  on it throws a \<open>TypeError\<close>.  The two exceptions carry the messages of Node.js.  What
  the runtime does about the rejection of such a promise when no code awaits it is
  outside the model.
\<close>

definition deferRejection :: error where
  "deferRejection = Error ''ReferenceError: Cannot access 'defer' before initialization''"

definition resolveTypeError :: error where
  "resolveTypeError = Error ''TypeError: promise.resolve is not a function''"

subsection \<open>RuntimeStringKeyValueStore\<close>

type_synonym runtimeData = "string \<rightharpoonup> val"

definition Runtime_get :: "string \<Rightarrow> runtimeData \<Rightarrow> val option" where
  "Runtime_get key rdata = rdata key"

definition Runtime_set :: "string \<Rightarrow> val option \<Rightarrow> runtimeData \<Rightarrow> runtimeData" where
  "Runtime_set key v rdata =
     (case v of None \<Rightarrow> rdata(key := None) | Some x \<Rightarrow> rdata(key \<mapsto> x))"

text \<open>
  \<open>getOrCreate\<close> (lines 39 to 54).  For a missing entry the promise of \<open>defer()\<close> is
  stored under the key and the factory is awaited.  When the factory returns, line 45
  calls \<open>promise.resolve(value)\<close>, which throws the \<open>TypeError\<close> inside the \<open>try\<close>
  block; when the factory throws, its exception is caught.  In both cases the \<open>catch\<close>
  block deletes the entry (line 48) and then calls \<open>promise.resolve(undefined)\<close>
  (line 49), which throws the \<open>TypeError\<close> out of the call before \<open>throw e\<close> is reached.
\<close>

definition Runtime_getOrCreate ::
  "string \<Rightarrow> 'w factory \<Rightarrow> runtimeData \<times> 'w \<Rightarrow> (error + val) \<times> runtimeData \<times> 'w" where
  "Runtime_getOrCreate key factory s =
     (case s of (rdata, w) \<Rightarrow>
        (case rdata key of
           None \<Rightarrow>
             (case factory key w of
                (Inr x, w') \<Rightarrow> (Inl resolveTypeError, rdata(key := None), w')
              | (Inl e, w') \<Rightarrow> (Inl resolveTypeError, rdata(key := None), w'))
         | Some x \<Rightarrow> (Inr x, rdata, w)))"

subsection \<open>StorageStringKeyValueStore\<close>

text \<open>
  The blob behind the store: what \<open>readUtf8\<close> settles with, and the exception
  \<open>write\<close> rejects with, if any.  A write that succeeds replaces the content.
\<close>

record blob =
  readUtf8 :: "error + string"
  writeFailure :: "error option"


text \<open>The values \<open>JSON.parse\<close> returns.\<close>

datatype json =
  JNull | JBool bool | JNumber rat | JString string
  | JArray "json list" | JObject "(string \<times> json) list"

text \<open>
  \<open>JSON.parse\<close> and \<open>JSON.stringify\<close> belong to the language, not to the repository:
  they are parameters.  \<open>JSON_stringify\<close> is applied to the entries of the object that
  \<open>save\<close> serialises.
\<close>

record lib =
  JSON_parse :: "string \<Rightarrow> error + json"
  JSON_stringify :: "(string \<times> val) list \<Rightarrow> string"

text \<open>
  The hooks of \<open>StorageStringKeyValueCacheOptions\<close>.  An error handler returns or throws
  (\<open>Some\<close> of what it throws).  An update handler is given the \<open>save\<close> callback; it is
  modelled by what it does before it settles: it awaits \<open>save()\<close>, it settles without
  saving, or it throws.
\<close>

datatype updateAction = AwaitSave | NoSave | Throw error

record options =
  onUpdate :: "(string \<Rightarrow> val option \<Rightarrow> updateAction) option"
  onLoadError :: "(error \<Rightarrow> error option) option"
  onSaveError :: "(error \<Rightarrow> error option) option"

text \<open>
  What the store does to the outside, in order: the calls of the hooks, the calls of
  \<open>console.error\<close> (with the errors they print) and the calls of the blob's \<open>write\<close>.
\<close>

datatype event =
  CalledOnUpdate string "val option"
  | CalledOnLoadError error
  | CalledOnSaveError error
  | ConsoleLoadError error
  | ConsoleLoadErrorAndHookError error error
  | ConsoleSaveError error
  | BlobWrite string

text \<open>
  The state of a store: the field \<open>data\<close> (\<open>None\<close> until the first load; the \<open>Map\<close> is
  the list of its entries in insertion order), the blob, and the trace of events.
\<close>

record storage =
  data :: "(string \<times> val) list option"
  storageBlob :: blob
  trace :: "event list"

definition emit :: "event list \<Rightarrow> storage \<Rightarrow> storage" where
  "emit es st = st\<lparr>trace := trace st @ es\<rparr>"



text \<open>JavaScript's truthiness, \<open>typeof x === "object"\<close> and \<open>typeof x === "string"\<close>.\<close>

fun truthy :: "json \<Rightarrow> bool" where
  "truthy JNull = False"
| "truthy (JBool b) = b"
| "truthy (JNumber n) = (n \<noteq> 0)"
| "truthy (JString s) = (s \<noteq> [])"
| "truthy (JArray xs) = True"
| "truthy (JObject kvs) = True"

fun typeof_object :: "json \<Rightarrow> bool" where
  "typeof_object JNull = True"
| "typeof_object (JArray xs) = True"
| "typeof_object (JObject kvs) = True"
| "typeof_object (JBool b) = False"
| "typeof_object (JNumber n) = False"
| "typeof_object (JString s) = False"

fun typeof_string :: "json \<Rightarrow> bool" where
  "typeof_string (JString s) = True"
| "typeof_string JNull = False"
| "typeof_string (JBool b) = False"
| "typeof_string (JNumber n) = False"
| "typeof_string (JArray xs) = False"
| "typeof_string (JObject kvs) = False"

text \<open>A natural number printed in decimal, as an array index is when it becomes a key.\<close>

fun decimal :: "nat \<Rightarrow> string" where
  "decimal n =
     (if n < 10 then [''0123456789'' ! n]
      else decimal (n div 10) @ [''0123456789'' ! (n mod 10)])"

text \<open>
  \<open>Object.entries\<close> and \<open>Object.values\<close> of a value that passed the two tests of
  \<open>getData\<close>: an object has its members, an array has its elements under their indices.
  No other value reaches the calls.
\<close>

fun Object_entries :: "json \<Rightarrow> (string \<times> json) list" where
  "Object_entries (JObject kvs) = kvs"
| "Object_entries (JArray xs) = zip (map decimal [0..<length xs]) xs"
| "Object_entries JNull = []"
| "Object_entries (JBool b) = []"
| "Object_entries (JNumber n) = []"
| "Object_entries (JString s) = []"

definition Object_values :: "json \<Rightarrow> json list" where
  "Object_values j = map snd (Object_entries j)"

text \<open>The settled value of \<open>Promise.resolve(v)\<close> for a member that is a string.\<close>

fun resolved :: "json \<Rightarrow> val" where
  "resolved (JString s) = Str s"
| "resolved JNull = Null"
| "resolved (JBool b) = Null"
| "resolved (JNumber n) = Null"
| "resolved (JArray xs) = Null"
| "resolved (JObject kvs) = Null"

text \<open>
  The body of the \<open>try\<close> block of \<open>getData\<close> (lines 86 to 90).  The name of the blob is
  left out of the first message.
\<close>

definition readEntries :: "lib \<Rightarrow> blob \<Rightarrow> error + (string \<times> val) list" where
  "readEntries l b =
     (case readUtf8 b of
        Inl e \<Rightarrow> Inl e
      | Inr text \<Rightarrow>
          (case JSON_parse l text of
             Inl e \<Rightarrow> Inl e
           | Inr j \<Rightarrow>
               if \<not> truthy j \<or> \<not> typeof_object j
               then Inl (Error ''does not contain a JSON-formatted object.'')
               else if list_ex (\<lambda>x. \<not> typeof_string x) (Object_values j)
               then Inl (Error ''Stored data contains non-string values.'')
               else Inr (map (\<lambda>(k, v). (k, resolved v)) (Object_entries j))))"

text \<open>
  The \<open>catch\<close> block (lines 91 to 99): the error goes to \<open>onLoadError\<close> or else to
  \<open>console.error\<close>; what \<open>onLoadError\<close> throws is caught and printed.
\<close>

definition reportLoadError :: "options \<Rightarrow> error \<Rightarrow> event list" where
  "reportLoadError opts e =
     (case onLoadError opts of
        Some h \<Rightarrow>
          (case h e of
             None \<Rightarrow> [CalledOnLoadError e]
           | Some e2 \<Rightarrow> [CalledOnLoadError e, ConsoleLoadErrorAndHookError e e2])
      | None \<Rightarrow> [ConsoleLoadError e])"

definition Storage_load :: "lib \<Rightarrow> options \<Rightarrow> storage \<Rightarrow> (string \<times> val) list \<times> storage" where
  "Storage_load l opts st =
     (case readEntries l (storageBlob st) of
        Inr m \<Rightarrow> (m, st)
      | Inl e \<Rightarrow> ([], emit (reportLoadError opts e) st))"

definition Storage_getData ::
  "lib \<Rightarrow> options \<Rightarrow> bool \<Rightarrow> storage \<Rightarrow> (string \<times> val) list \<times> storage" where
  "Storage_getData l opts forceReload st =
     (case (if forceReload then None else data st) of
        None \<Rightarrow> (case Storage_load l opts st of (m, st') \<Rightarrow> (m, st'\<lparr>data := Some m\<rparr>))
      | Some m \<Rightarrow> (m, st))"



definition Storage_get :: "lib \<Rightarrow> options \<Rightarrow> string \<Rightarrow> storage \<Rightarrow> val option \<times> storage" where
  "Storage_get l opts key st =
     (case Storage_getData l opts False st of (m, st1) \<Rightarrow> (map_of m key, st1))"


text \<open>
  \<open>getOrCreate\<close> (lines 137 to 155).  As in the runtime store, a missing entry makes
  the call store the promise of \<open>defer()\<close> and await the factory.  When the factory
  returns, line 147 throws the \<open>TypeError\<close> before \<open>onUpdate\<close> is called at line 148;
  the \<open>catch\<close> block deletes the entry (line 151) and line 152 throws the \<open>TypeError\<close>
  out of the call.
\<close>

definition Storage_getOrCreate ::
  "lib \<Rightarrow> options \<Rightarrow> string \<Rightarrow> 'w factory \<Rightarrow> storage \<times> 'w \<Rightarrow> (error + val) \<times> storage \<times> 'w"
where
  "Storage_getOrCreate l opts key factory s =
     (case s of (st, w) \<Rightarrow>
        (case Storage_getData l opts False st of
           (m, st1) \<Rightarrow>
             (case map_of m key of
                Some x \<Rightarrow> (Inr x, st1, w)
              | None \<Rightarrow>
                  (case factory key w of
                     (Inl e, w') \<Rightarrow>
                       (Inl resolveTypeError, st1\<lparr>data := Some (AList.delete key m)\<rparr>, w')
                   | (Inr x, w') \<Rightarrow>
                       (Inl resolveTypeError, st1\<lparr>data := Some (AList.delete key m)\<rparr>, w')))))"

subsection \<open>Reading the trace\<close>




section \<open>The image codec wrapper (resize-image.ts)\<close>

record ImageResizeOptions =
  o_width :: "int option"
  o_height :: "int option"
  o_quality :: "int option"

text \<open>
  The fields of \<open>ResizedImage\<close>, \<open>TransformedImageAsset\<close>, \<open>ImageSetAsset\<close> and
  \<open>ImageSetSource\<close> carry a prefix, since several of the interfaces share field names.
\<close>

record ResizedImage =
  ri_ext :: string
  ri_width :: nat
  ri_height :: nat
  ri_data :: string
  ri_hash :: string

record ImageminOptions =
  quality :: int
  resize :: "(int \<times> int) option"

text \<open>
  What the repository calls but does not contain: the hash and path functions of
  Node.js, the file system, sharp, imagemin-webp, and \<open>JSON\<close> on a
  \<open>TransformedImageAsset\<close>.  A buffer is the list of its bytes, and so is a string
  (its UTF-8 encoding); \<open>sha256hex x\<close> is \<open>createHash('sha256').update(x).digest('hex')\<close>.
  \<open>metadata\<close> gives the format, the width and the height sharp reports, each of which
  may be missing.  \<open>fsWrite path data\<close> is \<open>mkdir\<close> of the directory followed by
  \<open>writeFile\<close>, with the exception it throws, if any.
\<close>

record env =
  sha256hex :: "string \<Rightarrow> string"
  readFile :: "string \<Rightarrow> error + string"
  fsWrite :: "string \<Rightarrow> string \<Rightarrow> error option"
  path_join :: "string \<Rightarrow> string \<Rightarrow> string"
  path_sep :: char
  composite :: "string \<Rightarrow> string \<Rightarrow> error + string"
  minifyWebp :: "ImageminOptions \<Rightarrow> string \<Rightarrow> error + string"
  metadata :: "string \<Rightarrow> error + (string option \<times> nat option \<times> nat option)"
  fileSuffix :: "string \<Rightarrow> string list option"
  stringifyAsset :: "string \<times> rat \<times> rat \<Rightarrow> string"
  parseAsset :: "string \<Rightarrow> error + (string \<times> rat \<times> rat)"

text \<open>\<open>x || d\<close> on an optional number: a missing number and zero are falsy.\<close>

definition orElse :: "int option \<Rightarrow> int \<Rightarrow> int" where
  "orElse x d = (case x of None \<Rightarrow> d | Some n \<Rightarrow> if n = 0 then d else n)"

definition isSet :: "int option \<Rightarrow> bool" where
  "isSet x = (case x of None \<Rightarrow> False | Some n \<Rightarrow> n \<noteq> 0)"

definition isSetNat :: "nat option \<Rightarrow> bool" where
  "isSetNat x = (case x of None \<Rightarrow> False | Some n \<Rightarrow> n \<noteq> 0)"

definition resizeImage ::
  "env \<Rightarrow> string \<Rightarrow> ImageResizeOptions \<Rightarrow> string option \<Rightarrow> error + ResizedImage" where
  "resizeImage ev rawData opts debugText =
     (let imageminOptions =
            \<lparr>quality = orElse (o_quality opts) 85,
             resize = (if isSet (o_width opts) \<or> isSet (o_height opts)
                       then Some (orElse (o_width opts) 0, orElse (o_height opts) 0)
                       else None)\<rparr>
      in
      case (case debugText of
              None \<Rightarrow> Inr rawData
            | Some t \<Rightarrow> if t = [] then Inr rawData else composite ev rawData t) of
        Inl e \<Rightarrow> Inl e
      | Inr rawData' \<Rightarrow>
          (case minifyWebp ev imageminOptions rawData' of
             Inl e \<Rightarrow> Inl e
           | Inr resizedData \<Rightarrow>
               (case metadata ev resizedData of
                  Inl e \<Rightarrow> Inl e
                | Inr (formatId, w, h) \<Rightarrow>
                    (case formatId of
                       None \<Rightarrow>
                         Inl (Error ''Cannot parse resulting file - unknown output file extension'')
                     | Some f \<Rightarrow>
                         if \<not> isSetNat w \<or> \<not> isSetNat h
                         then Inl (Error ''Cannot transform image, unknown output width or height.'')
                         else Inr \<lparr>ri_ext =
                                     (case fileSuffix ev f of
                                        Some (x # xs) \<Rightarrow> x
                                      | Some [] \<Rightarrow> ''.'' @ f
                                      | None \<Rightarrow> ''.'' @ f),
                                   ri_width = the w, ri_height = the h,
                                   ri_data = resizedData,
                                   ri_hash = sha256hex ev resizedData\<rparr>))))"

section \<open>The orchestrator (processImageRequest)\<close>

datatype input = Bytes string | Path string

record request =
  outputDirectory :: string
  publicPathPrefix :: string
  customOutputNameGenerator :: "(string \<Rightarrow> ResizedImage \<Rightarrow> string option) option"
  customStorageWriter :: "(string \<Rightarrow> string \<Rightarrow> string \<Rightarrow> error option) option"
  sizeThreshold :: rat
  inputImage :: input
  pixelDensities :: "rat list"
  breakpoints :: "ImageBreakpoint list"

text \<open>
  The field \<open>processedImageCacheStore\<close> is not part of the record: the state of the store
  is threaded through the functions, and its \<open>getOrCreate\<close> is the argument \<open>goc\<close>.
  The field \<open>sequential\<close> is not part of the record either: the functions below describe
  a request with \<open>sequential: true\<close>, whose transforms run one after the other
  (\<open>promiseAllSequential\<close>).

  The world of the factory: the variable \<open>isCached\<close> of the running
  \<open>transformSingleImage\<close>, and the files written so far.
\<close>

datatype written = WriteFile string string | CustomWrite string string string

record world =
  isCached :: bool
  outputs :: "written list"

type_synonym 's getOrCreate =
  "string \<Rightarrow> world factory \<Rightarrow> 's \<times> world \<Rightarrow> (error + val) \<times> 's \<times> world"

text \<open>A template literal prints an integral number in decimal.\<close>

definition showInt :: "int \<Rightarrow> string" where
  "showInt n = (if n < 0 then ''-'' @ decimal (nat (- n)) else decimal (nat n))"

text \<open>Lines 112 to 118 of \<open>transformSingleImage\<close>: the hash is taken of \<open>request.inputImage\<close>.\<close>

definition rawHash :: "env \<Rightarrow> request \<Rightarrow> string" where
  "rawHash ev req = sha256hex ev (case inputImage req of Bytes b \<Rightarrow> b | Path p \<Rightarrow> p)"

definition cacheKey :: "env \<Rightarrow> request \<Rightarrow> int \<Rightarrow> string option \<Rightarrow> string" where
  "cacheKey ev req maxW debugText =
     rawHash ev req @ ''@'' @ showInt maxW @ '':'' @
     (case debugText of None \<Rightarrow> [] | Some t \<Rightarrow> t)"

text \<open>Lines 125 to 130: the output name when no generator is given, or it returns nothing.\<close>

definition defaultOutputName :: "env \<Rightarrow> string \<Rightarrow> ResizedImage \<Rightarrow> string" where
  "defaultOutputName ev rh resizedImage =
     (let fileDirName = take 2 rh;
          fileName = take 8 (drop 2 rh) @ ''-'' @ decimal (ri_width resizedImage div 10)
                     @ ''}'' @ ri_ext resizedImage
      in path_join ev fileDirName fileName)"

definition outputNameOf :: "env \<Rightarrow> request \<Rightarrow> string \<Rightarrow> ResizedImage \<Rightarrow> string" where
  "outputNameOf ev req rh resizedImage =
     (case (case customOutputNameGenerator req of
              None \<Rightarrow> None
            | Some g \<Rightarrow> g rh resizedImage) of
        Some name \<Rightarrow> name
      | None \<Rightarrow> defaultOutputName ev rh resizedImage)"

text \<open>\<open>outputName.split(sep).join('/')\<close>\<close>

definition slashes :: "env \<Rightarrow> string \<Rightarrow> string" where
  "slashes ev name = map (\<lambda>c. if c = path_sep ev then CHR ''/'' else c) name"

text \<open>The factory handed to \<open>getOrCreate\<close> (lines 121 to 146).\<close>

definition transformFactory ::
  "env \<Rightarrow> request \<Rightarrow> string \<Rightarrow> int \<Rightarrow> string option \<Rightarrow> world factory" where
  "transformFactory ev req inputBytes maxW debugText key w =
     (let w1 = w\<lparr>isCached := False\<rparr> in
      case resizeImage ev inputBytes \<lparr>o_width = Some maxW, o_height = None, o_quality = None\<rparr>
             debugText of
        Inl e \<Rightarrow> (Inl e, w1)
      | Inr resizedImage \<Rightarrow>
          (let outputName = outputNameOf ev req (rawHash ev req) resizedImage;
               entry = stringifyAsset ev
                         (publicPathPrefix req @ ''/'' @ slashes ev outputName,
                          of_nat (ri_width resizedImage), of_nat (ri_height resizedImage))
           in
           case customStorageWriter req of
             Some writer \<Rightarrow>
               (let w2 = w1\<lparr>outputs := outputs w1 @
                            [CustomWrite (ri_data resizedImage) outputName (outputDirectory req)]\<rparr>
                in case writer (ri_data resizedImage) outputName (outputDirectory req) of
                     Some e \<Rightarrow> (Inl e, w2)
                   | None \<Rightarrow> (Inr (Str entry), w2))
           | None \<Rightarrow>
               (let outputPath = path_join ev (outputDirectory req) outputName in
                case fsWrite ev outputPath (ri_data resizedImage) of
                  Some e \<Rightarrow> (Inl e, w1)
                | None \<Rightarrow>
                    (Inr (Str entry),
                     w1\<lparr>outputs := outputs w1 @ [WriteFile outputPath (ri_data resizedImage)]\<rparr>))))"

text \<open>
  \<open>transformSingleImage\<close> returns \<open>isCached\<close> and the asset as its source, width and
  height.  An entry that is \<open>null\<close> or the empty string is falsy.
\<close>

definition transformSingleImage ::
  "env \<Rightarrow> request \<Rightarrow> 's getOrCreate \<Rightarrow> string \<Rightarrow> int \<Rightarrow> string option \<Rightarrow>
   's \<times> world \<Rightarrow> (error + bool \<times> string \<times> rat \<times> rat) \<times> 's \<times> world" where
  "transformSingleImage ev req goc inputBytes maxW debugText s =
     (case s of (st, w) \<Rightarrow>
        (case goc (cacheKey ev req maxW debugText)
                  (transformFactory ev req inputBytes maxW debugText)
                  (st, w\<lparr>isCached := True\<rparr>) of
           (Inl e, st', w') \<Rightarrow> (Inl e, st', w')
         | (Inr Null, st', w') \<Rightarrow> (Inl (Error ''Could not process image''), st', w')
         | (Inr (Str entry), st', w') \<Rightarrow>
             if entry = [] then (Inl (Error ''Could not process image''), st', w')
             else (case parseAsset ev entry of
                     Inl e \<Rightarrow> (Inl e, st', w')
                   | Inr asset \<Rightarrow> (Inr (isCached w', asset), st', w'))))"

text \<open>
  The state of one request: the store and the world, the map \<open>statsGeneratedUrls\<close>
  (the list of its entries in insertion order) and the variable \<open>aspectRatio\<close>
  (its ratio and its width).
\<close>

record 's run =
  store :: 's
  wrld :: world
  statsGeneratedUrls :: "(string \<times> bool) list"
  aspectRatio :: "(rat \<times> rat) option"

record ImageSetAsset =
  isa_src :: string
  isa_dpi :: rat

record ImageSetSource =
  iss_w :: rat
  iss_srcset :: "ImageSetAsset list"

record ImageSet =
  sources :: "ImageSetSource list"
  img :: "ImageSetAsset list"
  aspect :: rat

record ImageResizeResponse =
  imageSet :: ImageSet
  generated :: nat
  cached :: nat

text \<open>
  \<open>transform\<close> (lines 21 to 28).  The constant \<open>renderDebugSizeOnImages\<close> is false, so
  the debug text is \<open>undefined\<close>.  The division is exact; where the source divides by
  zero the model differs from JavaScript, which no statement below depends on.
\<close>

definition transform ::
  "env \<Rightarrow> request \<Rightarrow> 's getOrCreate \<Rightarrow> string \<Rightarrow> SizeSpec \<Rightarrow> 's run \<Rightarrow>
   (error + string \<times> rat \<times> rat \<times> rat) \<times> 's run" where
  "transform ev req goc inputBytes sizeSpec r =
     (case transformSingleImage ev req goc inputBytes (actualWidth sizeSpec) None
             (store r, wrld r) of
        (Inl e, st', w') \<Rightarrow> (Inl e, r\<lparr>store := st', wrld := w'\<rparr>)
      | (Inr (isC, src, w, h), st', w') \<Rightarrow>
          (Inr (src, w, h, of_int \<lfloor>(w / width sizeSpec) * 100\<rfloor> / 100),
           r\<lparr>store := st', wrld := w',
             statsGeneratedUrls := AList.update src isC (statsGeneratedUrls r)\<rparr>))"

text \<open>\<open>promiseAllSequential\<close>: the tasks run in order; the first exception ends the loop.\<close>

fun promiseAllSequential ::
  "('r \<Rightarrow> (error + 'a) \<times> 'r) list \<Rightarrow> 'r \<Rightarrow> (error + 'a list) \<times> 'r" where
  "promiseAllSequential [] r = (Inr [], r)"
| "promiseAllSequential (f # fs) r =
     (case f r of
        (Inl e, r') \<Rightarrow> (Inl e, r')
      | (Inr x, r') \<Rightarrow>
          (case promiseAllSequential fs r' of
             (Inl e, r'') \<Rightarrow> (Inl e, r'')
           | (Inr xs, r'') \<Rightarrow> (Inr (x # xs), r'')))"

text \<open>\<open>getUniqueImages\<close>, with the loop's two variables as arguments.\<close>

fun uniqueLoop ::
  "ImageSetAsset list \<Rightarrow> ImageSetAsset list \<Rightarrow> string list \<Rightarrow> ImageSetAsset list" where
  "uniqueLoop [] uniqueImages seenWidths = uniqueImages"
| "uniqueLoop (im # rest) uniqueImages seenWidths =
     (if isa_src im \<notin> set seenWidths
      then uniqueLoop rest (uniqueImages @ [im]) (seenWidths @ [isa_src im])
      else uniqueLoop rest uniqueImages seenWidths)"

definition getUniqueImages :: "ImageSetAsset list \<Rightarrow> ImageSetAsset list" where
  "getUniqueImages images = uniqueLoop images [] []"

text \<open>The task of one density inside \<open>transformForDensities\<close> (lines 62 to 75).\<close>

definition densityTask ::
  "env \<Rightarrow> request \<Rightarrow> 's getOrCreate \<Rightarrow> string \<Rightarrow> (sizeKey \<rightharpoonup> SizeSpec) \<Rightarrow> rat \<Rightarrow> rat \<Rightarrow>
   's run \<Rightarrow> (error + ImageSetAsset) \<times> 's run" where
  "densityTask ev req goc inputBytes consolidated breakpointWidth d r =
     (case consolidated (sizeSpecKey breakpointWidth d) of
        None \<Rightarrow> (Inl (Error ''miscalculated consolidatedSizes''), r)
      | Some sizeSpec \<Rightarrow>
          (case transform ev req goc inputBytes sizeSpec r of
             (Inl e, r') \<Rightarrow> (Inl e, r')
           | (Inr (src, w, h, actualDensity), r') \<Rightarrow>
               (Inr \<lparr>isa_src = src, isa_dpi = actualDensity\<rparr>,
                if (case aspectRatio r' of None \<Rightarrow> True | Some (ratio, aw) \<Rightarrow> aw < w)
                then r'\<lparr>aspectRatio := Some (w / h, w)\<rparr>
                else r')))"

definition transformForDensities ::
  "env \<Rightarrow> request \<Rightarrow> 's getOrCreate \<Rightarrow> string \<Rightarrow> (sizeKey \<rightharpoonup> SizeSpec) \<Rightarrow> rat \<Rightarrow>
   's run \<Rightarrow> (error + ImageSetAsset list) \<times> 's run" where
  "transformForDensities ev req goc inputBytes consolidated breakpointWidth r =
     (case promiseAllSequential
             (map (densityTask ev req goc inputBytes consolidated breakpointWidth)
                  (pixelDensities req)) r of
        (Inl e, r') \<Rightarrow> (Inl e, r')
      | (Inr images, r') \<Rightarrow> (Inr (getUniqueImages images), r'))"

text \<open>The task of one source breakpoint (lines 84 to 87).\<close>

definition sourceTask ::
  "env \<Rightarrow> request \<Rightarrow> 's getOrCreate \<Rightarrow> string \<Rightarrow> (sizeKey \<rightharpoonup> SizeSpec) \<Rightarrow>
   ImageBreakpoint \<Rightarrow> 's run \<Rightarrow> (error + ImageSetSource) \<times> 's run" where
  "sourceTask ev req goc inputBytes consolidated breakpoint r =
     (case transformForDensities ev req goc inputBytes consolidated (imageWidth breakpoint) r of
        (Inl e, r') \<Rightarrow> (Inl e, r')
      | (Inr srcset, r') \<Rightarrow>
          (Inr \<lparr>iss_w = the (maxWidth breakpoint), iss_srcset = srcset\<rparr>, r'))"

text \<open>
  The two counters of the response (lines 100 and 101), computed from the values of
  \<open>statsGeneratedUrls\<close>, which are the \<open>isCached\<close> flags.
\<close>

definition countGenerated :: "(string \<times> bool) list \<Rightarrow> nat" where
  "countGenerated stats = length (filter (\<lambda>x. x) (map snd stats))"

definition countCached :: "(string \<times> bool) list \<Rightarrow> nat" where
  "countCached stats = length (filter (\<lambda>x. \<not> x) (map snd stats))"

text \<open>
  \<open>processImageRequest\<close>.  An empty path is the only falsy \<open>inputImage\<close> of the type.
  Reading \<open>aspectRatio!.ratio\<close> when no transform has run throws a \<open>TypeError\<close>.
\<close>

definition processImageRequest ::
  "env \<Rightarrow> request \<Rightarrow> 's getOrCreate \<Rightarrow> 's \<times> world \<Rightarrow>
   (error + ImageResizeResponse) \<times> 's \<times> world" where
  "processImageRequest ev req goc s =
     (case s of (st, w) \<Rightarrow>
        if inputImage req = Path [] then (Inl (Error ''Invalid input image''), st, w)
        else
          (case (case inputImage req of Path p \<Rightarrow> readFile ev p | Bytes b \<Rightarrow> Inr b) of
             Inl e \<Rightarrow> (Inl e, st, w)
           | Inr inputBytes \<Rightarrow>
               (let consolidated =
                      consolidatedSizes (breakpoints req) (pixelDensities req) (sizeThreshold req);
                    sourceBreakpoints = filter (\<lambda>b. maxWidth b \<noteq> None) (breakpoints req)
                in
                case find (\<lambda>b. maxWidth b = None) (breakpoints req) of
                  None \<Rightarrow>
                    (Inl (Error ''Fallback breakpoint (with maxWidth: null) is required''), st, w)
                | Some fallbackBreakpoint \<Rightarrow>
                    (case promiseAllSequential
                            (map (sourceTask ev req goc inputBytes consolidated) sourceBreakpoints)
                            \<lparr>store = st, wrld = w, statsGeneratedUrls = [], aspectRatio = None\<rparr> of
                       (Inl e, r1) \<Rightarrow> (Inl e, store r1, wrld r1)
                     | (Inr srcs, r1) \<Rightarrow>
                         (case transformForDensities ev req goc inputBytes consolidated
                                 (imageWidth fallbackBreakpoint) r1 of
                            (Inl e, r2) \<Rightarrow> (Inl e, store r2, wrld r2)
                          | (Inr fallbackImages, r2) \<Rightarrow>
                              (case aspectRatio r2 of
                                 None \<Rightarrow>
                                   (Inl (Error ''TypeError: aspectRatio is null''),
                                    store r2, wrld r2)
                               | Some (ratio, aw) \<Rightarrow>
                                   (Inr \<lparr>imageSet =
                                           \<lparr>sources = srcs, img = fallbackImages,
                                            aspect = of_int (Math_round (ratio * 100000)) / 100000\<rparr>,
                                         generated = countGenerated (statsGeneratedUrls r2),
                                         cached = countCached (statsGeneratedUrls r2)\<rparr>,
                                    store r2, wrld r2)))))))"

subsection \<open>Reading a response and a run\<close>

text \<open>
  The sources that occur in a response; the sources recorded in \<open>statsGeneratedUrls\<close>;
  and the runs in which every transform so far was answered by the runtime store
  \<open>rdata\<close>: the store and the written files are unchanged and every recorded flag is
  true.
\<close>

definition responseSrcs :: "ImageResizeResponse \<Rightarrow> string set" where
  "responseSrcs resp =
     isa_src ` set (img (imageSet resp)) \<union>
     (\<Union>s\<in>set (sources (imageSet resp)). isa_src ` set (iss_srcset s))"

definition hitRun :: "runtimeData \<Rightarrow> world \<Rightarrow> runtimeData run \<Rightarrow> bool" where
  "hitRun rdata w0 r \<longleftrightarrow>
     store r = rdata \<and> outputs (wrld r) = outputs w0 \<and>
     list_all snd (statsGeneratedUrls r) \<and> distinct (map fst (statsGeneratedUrls r))"

definition statSrcs :: "'s run \<Rightarrow> string set" where
  "statSrcs r = fst ` set (statsGeneratedUrls r)"

section \<open>Overlapping calls of RuntimeStringKeyValueStore.getOrCreate\<close>

text \<open>
  JavaScript runs one piece of code at a time.  A call of an async function runs until
  its first \<open>await\<close>; what follows the \<open>await\<close> is a job that enters the microtask
  queue once the awaited promise is settled (at once when the awaited value is settled
  already or is no promise), and the jobs of the queue run in the order they entered it.
  The machine below executes \<open>getOrCreate\<close> (lines 39 to 54) in these pieces.

  A promise held by the store is settled: it is fulfilled with a value (\<open>set\<close> stores
  \<open>Promise.resolve(value)\<close>), or it is the rejected promise of \<open>defer()\<close>.
\<close>

datatype settlement = Fulfilled val | Rejected error

text \<open>
  Where a call of \<open>getOrCreate\<close> stands: at the \<open>await\<close> of line 40, at the \<open>await\<close> of
  line 44, or finished, with the value it returned or the exception it threw.
\<close>

datatype pc = AwaitEntry | AwaitFactory | Returned val | Thrown error

record call =
  c_key :: string
  c_pc :: pc

text \<open>
  A job resumes a call: after line 40 with the value awaited (\<open>None\<close> for \<open>undefined\<close>) or
  with the exception of a rejected promise, after line 44 with the outcome of the
  factory.
\<close>

datatype job = Continue nat "error + val option" | FactorySettled nat "error + val"

record machine =
  m_data :: "string \<rightharpoonup> settlement"
  m_calls :: "call list"
  m_queue :: "job list"
  m_factoryCalls :: "string list"

definition newStore :: machine where
  "newStore = \<lparr>m_data = Map.empty, m_calls = [], m_queue = [], m_factoryCalls = []\<rparr>"

definition enqueue :: "job list \<Rightarrow> machine \<Rightarrow> machine" where
  "enqueue js m = m\<lparr>m_queue := m_queue m @ js\<rparr>"

definition setPc :: "nat \<Rightarrow> pc \<Rightarrow> machine \<Rightarrow> machine" where
  "setPc cid p m = m\<lparr>m_calls := (m_calls m)[cid := (m_calls m ! cid)\<lparr>c_pc := p\<rparr>]\<rparr>"

text \<open>
  The call \<open>store.getOrCreate(key, factory)\<close>: it evaluates \<open>this.data[key]\<close> and
  awaits the result (line 40), which suspends it also when the entry is missing.
\<close>

definition callGetOrCreate :: "string \<Rightarrow> machine \<Rightarrow> machine" where
  "callGetOrCreate key m =
     (let cid = length (m_calls m);
          m1 = m\<lparr>m_calls := m_calls m @ [\<lparr>c_key = key, c_pc = AwaitEntry\<rparr>]\<rparr>
      in case m_data m key of
           None \<Rightarrow> enqueue [Continue cid (Inr None)] m1
         | Some (Fulfilled x) \<Rightarrow> enqueue [Continue cid (Inr (Some x))] m1
         | Some (Rejected e) \<Rightarrow> enqueue [Continue cid (Inl e)] m1)"

text \<open>
  One job.  The factory is an async function that settles without waiting for
  anything: \<open>factory key\<close> is its outcome, and the job that resumes the caller enters
  the queue when the factory is called.

  After line 40: the exception of a rejected promise ends the call; \<open>undefined\<close> leads
  to line 42, which stores the promise of \<open>defer()\<close>, and to line 44, which calls the
  factory; any other value is returned.  After line 44: if the factory returned, line
  45 throws the \<open>TypeError\<close> into the \<open>catch\<close> block, and if it threw, its exception
  is caught there; the \<open>catch\<close> block deletes the entry (line 48) and line 49 throws the
  \<open>TypeError\<close> out of the call.
\<close>

definition runJob :: "(string \<Rightarrow> error + val) \<Rightarrow> job \<Rightarrow> machine \<Rightarrow> machine" where
  "runJob factory j m =
     (case j of
        Continue cid r \<Rightarrow>
          (case c_pc (m_calls m ! cid) of
             AwaitEntry \<Rightarrow>
               (case r of
                  Inl e \<Rightarrow> setPc cid (Thrown e) m
                | Inr None \<Rightarrow>
                    (let key = c_key (m_calls m ! cid);
                         m1 = m\<lparr>m_data := (m_data m)(key \<mapsto> Rejected deferRejection),
                                m_factoryCalls := m_factoryCalls m @ [key]\<rparr>
                     in enqueue [FactorySettled cid (factory key)] (setPc cid AwaitFactory m1))
                | Inr (Some x) \<Rightarrow> setPc cid (Returned x) m)
           | AwaitFactory \<Rightarrow> m
           | Returned x \<Rightarrow> m
           | Thrown e \<Rightarrow> m)
      | FactorySettled cid outcome \<Rightarrow>
          (case c_pc (m_calls m ! cid) of
             AwaitFactory \<Rightarrow>
               (case outcome of
                  Inr x \<Rightarrow>
                    setPc cid (Thrown resolveTypeError)
                      (m\<lparr>m_data := (m_data m)(c_key (m_calls m ! cid) := None)\<rparr>)
                | Inl e \<Rightarrow>
                    setPc cid (Thrown resolveTypeError)
                      (m\<lparr>m_data := (m_data m)(c_key (m_calls m ! cid) := None)\<rparr>))
           | AwaitEntry \<Rightarrow> m
           | Returned x \<Rightarrow> m
           | Thrown e \<Rightarrow> m))"

text \<open>The microtask queue, run for at most \<open>fuel\<close> jobs.\<close>

fun runQueue :: "(string \<Rightarrow> error + val) \<Rightarrow> nat \<Rightarrow> machine \<Rightarrow> machine" where
  "runQueue factory 0 m = m"
| "runQueue factory (Suc fuel) m =
     (case m_queue m of
        [] \<Rightarrow> m
      | j # js \<Rightarrow> runQueue factory fuel (runJob factory j (m\<lparr>m_queue := js\<rparr>)))"

section \<open>Example inputs\<close>

text \<open>
  A request for a three-byte input with the breakpoints 300 (up to a viewport of 600)
  and 320 (fallback), the densities 1 and 2 and the threshold 0.8.  Consolidation leaves
  the two widths 640 and 320 to render.
\<close>

definition exampleRequest :: request where
  "exampleRequest =
     \<lparr>outputDirectory = ''out'', publicPathPrefix = ''/img'',
      customOutputNameGenerator = None, customStorageWriter = None,
      sizeThreshold = 4 / 5, inputImage = Bytes ''IMG'', pixelDensities = [1, 2],
      breakpoints = [\<lparr>maxWidth = Some 600, imageWidth = 300\<rparr>,
                     \<lparr>maxWidth = None, imageWidth = 320\<rparr>]\<rparr>"

text \<open>A stand-in for the hash function that tells the bytes \<open>IMG\<close> from any other input.\<close>

definition exampleHash :: "string \<Rightarrow> string" where
  "exampleHash x =
     (if x = ''IMG'' then ''ab12cd34ef567890ab12cd34ef567890ab12cd34ef567890ab12cd34ef567890''
      else ''0f1e2d3c4b5a69780f1e2d3c4b5a69780f1e2d3c4b5a69780f1e2d3c4b5a6978'')"

text \<open>
  An environment for the request: the file \<open>photo.jpg\<close> holds the same three bytes, the
  codec answers a request for the width 640 or 320 with a 16:9 image in the WebP
  format, paths are joined with a slash, and an asset is serialised as JavaScript does
  for integral sizes and plain sources; \<open>parseAsset\<close> knows the texts that occur.
\<close>

definition exampleEnv :: env where
  \<open>exampleEnv =
     \<lparr>sha256hex = exampleHash,
      readFile = (\<lambda>p. if p = ''photo.jpg'' then Inr ''IMG'' else Inl (Error ''ENOENT'')),
      fsWrite = (\<lambda>p d. None),
      path_join = (\<lambda>a b. a @ ''/'' @ b),
      path_sep = CHR ''/'',
      composite = (\<lambda>raw t. Inr raw),
      minifyWebp = (\<lambda>io raw. case resize io of
                                  Some (w, h) \<Rightarrow> Inr (''WEBP'' @ showInt w)
                                | None \<Rightarrow> Inr raw),
      metadata = (\<lambda>d. if d = ''WEBP640'' then Inr (Some ''webp'', Some 640, Some 360)
                       else if d = ''WEBP320'' then Inr (Some ''webp'', Some 320, Some 180)
                       else Inl (Error ''Input buffer contains unsupported image format'')),
      fileSuffix = (\<lambda>f. Some [''.webp'']),
      stringifyAsset = (\<lambda>(src, w, h).
         ''{"height":'' @ showInt \<lfloor>h\<rfloor> @ '',"width":'' @ showInt \<lfloor>w\<rfloor>
           @ '',"src":"'' @ src @ ''"}''),
      parseAsset = (\<lambda>t.
         if t = ''{"height":360,"width":640,"src":"/img/ab/12cd34ef-64}.webp"}''
         then Inr (''/img/ab/12cd34ef-64}.webp'', 640, 360)
         else if t = ''{"height":180,"width":320,"src":"/img/ab/12cd34ef-32}.webp"}''
         then Inr (''/img/ab/12cd34ef-32}.webp'', 320, 180)
         else if t = ''{"height":360,"width":640,"src":"/img/0f/1e2d3c4b-64}.webp"}''
         then Inr (''/img/0f/1e2d3c4b-64}.webp'', 640, 360)
         else if t = ''{"height":180,"width":320,"src":"/img/0f/1e2d3c4b-32}.webp"}''
         then Inr (''/img/0f/1e2d3c4b-32}.webp'', 320, 180)
         else Inl (Error ''SyntaxError''))\<rparr>\<close>

definition exampleWorld :: world where
  "exampleWorld = \<lparr>isCached = False, outputs = []\<rparr>"

text \<open>
  Two runtime stores filled by \<open>set\<close> with an entry for each of the widths 640 and 320:
  in the first the keys are made of the hash of the bytes \<open>IMG\<close>, in the second of the
  hash of the path \<open>photo.jpg\<close>.
\<close>

definition bytesKeyedStore :: runtimeData where
  \<open>bytesKeyedStore =
     Runtime_set (exampleHash ''IMG'' @ ''@320:'')
       (Some (Str ''{"height":180,"width":320,"src":"/img/ab/12cd34ef-32}.webp"}''))
       (Runtime_set (exampleHash ''IMG'' @ ''@640:'')
          (Some (Str ''{"height":360,"width":640,"src":"/img/ab/12cd34ef-64}.webp"}''))
          Map.empty)\<close>

definition pathKeyedStore :: runtimeData where
  \<open>pathKeyedStore =
     Runtime_set (exampleHash ''photo.jpg'' @ ''@320:'')
       (Some (Str ''{"height":180,"width":320,"src":"/img/0f/1e2d3c4b-32}.webp"}''))
       (Runtime_set (exampleHash ''photo.jpg'' @ ''@640:'')
          (Some (Str ''{"height":360,"width":640,"src":"/img/0f/1e2d3c4b-64}.webp"}''))
          Map.empty)\<close>

text \<open>
  For the stores: \<open>JSON.stringify\<close> of entries whose keys and values need no escape,
  \<open>JSON.parse\<close> of the two texts that occur, a runtime store with one entry, and a
  storage store that has not loaded yet.
\<close>

fun commaSeparated :: "string list \<Rightarrow> string" where
  "commaSeparated [] = []"
| "commaSeparated [x] = x"
| "commaSeparated (x # y # zs) = x @ '','' @ commaSeparated (y # zs)"

definition exampleLib :: lib where
  \<open>exampleLib =
     \<lparr>JSON_parse = (\<lambda>t.
         if t = ''["a"]'' then Inr (JArray [JString ''a''])
         else if t = ''{"k":"v"}'' then Inr (JObject [(''k'', JString ''v'')])
         else Inl (Error ''SyntaxError'')),
      JSON_stringify = (\<lambda>m.
         ''{'' @ commaSeparated
                  (map (\<lambda>(k, v). ''"'' @ k @ ''":'' @
                          (case v of Str s \<Rightarrow> ''"'' @ s @ ''"'' | Null \<Rightarrow> ''null'')) m)
              @ ''}'')\<rparr>\<close>

definition exampleRuntime :: runtimeData where
  "exampleRuntime = Map.empty(''k'' \<mapsto> Str ''v'')"

definition exampleOptions :: options where
  "exampleOptions = \<lparr>onUpdate = None, onLoadError = None, onSaveError = None\<rparr>"

definition exampleStorage :: "string \<Rightarrow> storage" where
  "exampleStorage text =
     \<lparr>data = None, storageBlob = \<lparr>readUtf8 = Inr text, writeFailure = None\<rparr>, trace = []\<rparr>"

text \<open>
  Two factories whose world is a counter of their calls: one throws, one returns.
\<close>

definition failingFactory :: "nat factory" where
  "failingFactory key n = (Inl (Error ''boom''), Suc n)"


text \<open>The image the codec of the example environment returns for the width 640.\<close>

definition exampleResized :: ResizedImage where
  "exampleResized =
     \<lparr>ri_ext = ''.webp'', ri_width = 640, ri_height = 360, ri_data = ''WEBP640'',
      ri_hash = ''0f1e2d3c4b5a69780f1e2d3c4b5a69780f1e2d3c4b5a69780f1e2d3c4b5a6978''\<rparr>"

section \<open>Properties of the size consolidation\<close>

lemma walkInvD:
  assumes "walkInv xs lu m"
  shows "\<And>k s. m k = Some s \<Longrightarrow> orig k \<le> actualWidth s"
    and "\<And>k s. m k = Some s \<Longrightarrow>
           \<exists>k' s'. m k' = Some s' \<and> actualWidth s' = orig k' \<and> orig k' = actualWidth s"
    and "\<And>k s x. m k = Some s \<Longrightarrow> x \<in> set xs \<Longrightarrow> actualWidth x \<le> actualWidth s"
    and "\<And>k s l. m k = Some s \<Longrightarrow> lu = Some l \<Longrightarrow> actualWidth l \<le> actualWidth s"
    and "\<And>l. lu = Some l \<Longrightarrow> \<exists>s'. m (keyOf l) = Some s' \<and> actualWidth s' = actualWidth l"
    and "\<And>l. lu = Some l \<Longrightarrow> actualWidth l = orig (keyOf l)"
    and "\<And>l x. lu = Some l \<Longrightarrow> x \<in> set xs \<Longrightarrow> actualWidth x \<le> actualWidth l"
  using assms unfolding walkInv_def mapInv_def by blast+

lemma walkInvI:
  assumes "\<And>k s. m k = Some s \<Longrightarrow> orig k \<le> actualWidth s"
    and "\<And>k s. m k = Some s \<Longrightarrow>
           \<exists>k' s'. m k' = Some s' \<and> actualWidth s' = orig k' \<and> orig k' = actualWidth s"
    and "\<And>k s x. m k = Some s \<Longrightarrow> x \<in> set xs \<Longrightarrow> actualWidth x \<le> actualWidth s"
    and "\<And>k s l. m k = Some s \<Longrightarrow> lu = Some l \<Longrightarrow> actualWidth l \<le> actualWidth s"
    and "\<And>l. lu = Some l \<Longrightarrow> \<exists>s'. m (keyOf l) = Some s' \<and> actualWidth s' = actualWidth l"
    and "\<And>l. lu = Some l \<Longrightarrow> actualWidth l = orig (keyOf l)"
    and "\<And>l x. lu = Some l \<Longrightarrow> x \<in> set xs \<Longrightarrow> actualWidth x \<le> actualWidth l"
  shows "walkInv xs lu m"
  using assms unfolding walkInv_def mapInv_def by blast

lemma walkInv_new:
  assumes inv: "walkInv (x # rest) lu m"
    and ox: "actualWidth x = orig (keyOf x)"
    and srt: "\<forall>y\<in>set rest. actualWidth y \<le> actualWidth x"
  shows "walkInv rest (Some x) (m(keyOf x \<mapsto> x))"
proof (rule walkInvI)
  note D = walkInvD[OF inv]
  let ?m = "m(keyOf x \<mapsto> x)"
  have upd: "\<And>k s. ?m k = Some s \<Longrightarrow> k \<noteq> keyOf x \<Longrightarrow> m k = Some s"
    by simp
  have own: "\<And>s. ?m (keyOf x) = Some s \<Longrightarrow> s = x"
    by simp
  have rec: "?m (keyOf x) = Some x" by simp
  { fix k s assume h: "?m k = Some s"
    show "orig k \<le> actualWidth s"
    proof (cases "k = keyOf x")
      case True then show ?thesis using own h ox by force
    next
      case False then show ?thesis using upd[OF h] D(1) by blast
    qed
    show "\<exists>k' s'. ?m k' = Some s' \<and> actualWidth s' = orig k' \<and> orig k' = actualWidth s"
    proof (cases "k = keyOf x")
      case True
      then have "s = x" using own h by blast
      then show ?thesis using rec ox by metis
    next
      case False
      then have mk: "m k = Some s" using upd h by blast
      then obtain k' s' where k': "m k' = Some s'" "actualWidth s' = orig k'" "orig k' = actualWidth s"
        using D(2) by blast
      show ?thesis
      proof (cases "k' = keyOf x")
        case True
        then show ?thesis using k' ox rec by metis
      next
        case False
        then have "?m k' = Some s'" using k'(1) by simp
        then show ?thesis using k' by blast
      qed
    qed }
  { fix k s y
    assume h: "?m k = Some s" and y: "y \<in> set rest"
    show "actualWidth y \<le> actualWidth s"
    proof (cases "k = keyOf x")
      case True then show ?thesis using own h srt y by blast
    next
      case False then show ?thesis using upd[OF h] D(3)[of k s y] y by simp
    qed }
  { fix k s l
    assume h: "?m k = Some s" and l: "Some x = Some l"
    show "actualWidth l \<le> actualWidth s"
    proof (cases "k = keyOf x")
      case True then show ?thesis using own h l by force
    next
      case False then show ?thesis using upd[OF h] D(3)[of k s x] l by simp
    qed }
  { fix l assume l: "Some x = Some l"
    show "\<exists>s'. ?m (keyOf l) = Some s' \<and> actualWidth s' = actualWidth l"
      using l rec by auto
    show "actualWidth l = orig (keyOf l)" using ox l by auto
    fix y assume "y \<in> set rest"
    then show "actualWidth y \<le> actualWidth l" using srt l by auto }
qed

lemma walkInv_absorb:
  assumes inv: "walkInv (x # rest) (Some l) m"
    and ox: "actualWidth x = orig (keyOf x)"
  shows "walkInv rest (Some l) (m(keyOf x \<mapsto> x\<lparr>actualWidth := actualWidth l\<rparr>))"
proof (rule walkInvI)
  note D = walkInvD[OF inv]
  let ?v = "x\<lparr>actualWidth := actualWidth l\<rparr>"
  let ?m = "m(keyOf x \<mapsto> ?v)"
  have upd: "\<And>k s. ?m k = Some s \<Longrightarrow> k \<noteq> keyOf x \<Longrightarrow> m k = Some s"
    by simp
  have own: "\<And>s. ?m (keyOf x) = Some s \<Longrightarrow> actualWidth s = actualWidth l"
    by auto
  have rec: "?m (keyOf x) = Some ?v" by simp
  have xl: "actualWidth x \<le> actualWidth l" using D(7)[of l x] by simp
  have ol: "actualWidth l = orig (keyOf l)" using D(6) by simp
  obtain sl where sl: "m (keyOf l) = Some sl" "actualWidth sl = actualWidth l"
    using D(5) by blast
  have lrec: "\<exists>s'. ?m (keyOf l) = Some s' \<and> actualWidth s' = actualWidth l"
    using sl by auto
  { fix k s assume h: "?m k = Some s"
    show "orig k \<le> actualWidth s"
    proof (cases "k = keyOf x")
      case True then show ?thesis using own h ox xl by force
    next
      case False then show ?thesis using upd[OF h] D(1) by blast
    qed
    show "\<exists>k' s'. ?m k' = Some s' \<and> actualWidth s' = orig k' \<and> orig k' = actualWidth s"
    proof (cases "k = keyOf x")
      case True
      then have "actualWidth s = actualWidth l" using own h by blast
      then show ?thesis using lrec ol by metis
    next
      case False
      then have mk: "m k = Some s" using upd h by blast
      then obtain k' s' where k': "m k' = Some s'" "actualWidth s' = orig k'" "orig k' = actualWidth s"
        using D(2) by blast
      show ?thesis
      proof (cases "k' = keyOf x")
        case True
        have "actualWidth l \<le> actualWidth s" using D(4)[OF mk] by simp
        with True k' ox xl have "actualWidth l = orig (keyOf x)" by simp
        moreover have "actualWidth ?v = actualWidth l" by simp
        ultimately show ?thesis using True k' rec by metis
      next
        case False
        then have "?m k' = Some s'" using k'(1) by simp
        then show ?thesis using k' by blast
      qed
    qed }
  { fix k s y
    assume h: "?m k = Some s" and y: "y \<in> set rest"
    show "actualWidth y \<le> actualWidth s"
    proof (cases "k = keyOf x")
      case True then show ?thesis using own[of s] h D(7)[of l y] y by simp
    next
      case False then show ?thesis using upd[OF h] D(3)[of k s y] y by simp
    qed }
  { fix k s l'
    assume h: "?m k = Some s" and l: "Some l = Some l'"
    show "actualWidth l' \<le> actualWidth s"
    proof (cases "k = keyOf x")
      case True then show ?thesis using own[of s] h l by simp
    next
      case False then show ?thesis using upd[OF h] D(4)[of k s l] l by simp
    qed }
  { fix l' assume l: "Some l = Some l'"
    show "\<exists>s'. ?m (keyOf l') = Some s' \<and> actualWidth s' = actualWidth l'"
      using lrec l by auto
    show "actualWidth l' = orig (keyOf l')" using ol l by auto
    fix y assume "y \<in> set rest"
    then show "actualWidth y \<le> actualWidth l'" using D(7)[of l y] l by auto }
qed

lemma consolidateLoop_Cons_None:
  "consolidateLoop t (x # rest) None m = consolidateLoop t rest (Some x) (m(keyOf x \<mapsto> x))"
  by (simp add: keyOf_def)

lemma consolidateLoop_Cons_absorb:
  "of_int (actualWidth l) * t \<le> of_int (actualWidth x) \<Longrightarrow>
   consolidateLoop t (x # rest) (Some l) m =
   consolidateLoop t rest (Some l) (m(keyOf x \<mapsto> x\<lparr>actualWidth := actualWidth l\<rparr>))"
  by (simp add: keyOf_def)

lemma consolidateLoop_Cons_new:
  "\<not> of_int (actualWidth l) * t \<le> of_int (actualWidth x) \<Longrightarrow>
   consolidateLoop t (x # rest) (Some l) m =
   consolidateLoop t rest (Some x) (m(keyOf x \<mapsto> x))"
  by (simp add: keyOf_def)

lemma consolidateLoop_inv:
  assumes "\<forall>x\<in>set xs. actualWidth x = orig (keyOf x)"
    and "sorted_wrt (\<lambda>a b. actualWidth b \<le> actualWidth a) xs"
    and "walkInv xs lu m"
  shows "mapInv (consolidateLoop t xs lu m)"
  using assms
proof (induction xs arbitrary: lu m)
  case Nil
  then show ?case by (simp add: walkInv_def)
next
  case (Cons x rest)
  have ox: "actualWidth x = orig (keyOf x)" using Cons.prems(1) by simp
  have srt: "\<forall>y\<in>set rest. actualWidth y \<le> actualWidth x" using Cons.prems(2) by simp
  have r1: "\<forall>x\<in>set rest. actualWidth x = orig (keyOf x)" using Cons.prems(1) by simp
  have r2: "sorted_wrt (\<lambda>a b. actualWidth b \<le> actualWidth a) rest" using Cons.prems(2) by simp
  note new = Cons.IH[OF r1 r2 walkInv_new[OF Cons.prems(3) ox srt]]
  show ?case
  proof (cases lu)
    case None
    show ?thesis unfolding None consolidateLoop_Cons_None by (rule new)
  next
    case (Some l)
    show ?thesis
    proof (cases "of_int (actualWidth l) * t \<le> of_int (actualWidth x)")
      case True
      have "walkInv rest (Some l) (m(keyOf x \<mapsto> x\<lparr>actualWidth := actualWidth l\<rparr>))"
        using walkInv_absorb[OF _ ox] Cons.prems(3) Some by simp
      from Cons.IH[OF r1 r2 this] show ?thesis
        unfolding Some consolidateLoop_Cons_absorb[OF True] .
    next
      case False
      show ?thesis unfolding Some consolidateLoop_Cons_new[OF False] by (rule new)
    qed
  qed
qed


lemma consolidateLoop_other:
  "k \<notin> keyOf ` set xs \<Longrightarrow> consolidateLoop t xs lu m k = m k"
proof (induction xs arbitrary: lu m)
  case Nil
  then show ?case by simp
next
  case (Cons x rest)
  then have k: "k \<noteq> keyOf x" "k \<notin> keyOf ` set rest" by auto
  show ?case
  proof (cases lu)
    case None
    show ?thesis unfolding None consolidateLoop_Cons_None
      using Cons.IH[OF k(2)] k(1) by simp
  next
    case (Some l)
    show ?thesis
    proof (cases "of_int (actualWidth l) * t \<le> of_int (actualWidth x)")
      case True
      show ?thesis unfolding Some consolidateLoop_Cons_absorb[OF True]
        using Cons.IH[OF k(2)] k(1) by simp
    next
      case False
      show ?thesis unfolding Some consolidateLoop_Cons_new[OF False]
        using Cons.IH[OF k(2)] k(1) by simp
    qed
  qed
qed

lemma consolidateLoop_dom:
  "dom (consolidateLoop t xs lu m) = dom m \<union> keyOf ` set xs"
proof (induction xs arbitrary: lu m)
  case Nil
  then show ?case by simp
next
  case (Cons x rest)
  show ?case
  proof (cases lu)
    case None
    show ?thesis unfolding None consolidateLoop_Cons_None Cons.IH by auto
  next
    case (Some l)
    show ?thesis
    proof (cases "of_int (actualWidth l) * t \<le> of_int (actualWidth x)")
      case True
      show ?thesis unfolding Some consolidateLoop_Cons_absorb[OF True] Cons.IH by auto
    next
      case False
      show ?thesis unfolding Some consolidateLoop_Cons_new[OF False] Cons.IH by auto
    qed
  qed
qed

lemma allSizes_iff:
  "x \<in> set (allSizes bps ds) \<longleftrightarrow>
     (\<exists>b\<in>set bps. \<exists>d\<in>set ds.
        x = \<lparr>density = d, width = imageWidth b, actualWidth = Math_round (imageWidth b * d)\<rparr>)"
  by (auto simp: allSizes_def)

lemma allSizes_orig:
  "x \<in> set (allSizes bps ds) \<Longrightarrow> actualWidth x = orig (keyOf x)"
  by (auto simp: allSizes_iff orig_def keyOf_def sizeSpecKey_def)

lemma set_sortSizes: "set (sortSizes xs) = set xs"
  by (simp add: sortSizes_def)

lemma sorted_sortSizes:
  "sorted_wrt (\<lambda>a b. actualWidth b \<le> actualWidth a) (sortSizes xs)"
proof -
  have "sorted (map (\<lambda>s. - actualWidth s) (sortSizes xs))"
    unfolding sortSizes_def by (rule sorted_sort_key)
  then show ?thesis by (simp add: sorted_wrt_map)
qed

lemma consolidatedSizes_mapInv: "mapInv (consolidatedSizes bps ds t)"
  unfolding consolidatedSizes_def
proof (rule consolidateLoop_inv)
  show "\<forall>x\<in>set (sortSizes (allSizes bps ds)). actualWidth x = orig (keyOf x)"
    by (simp add: set_sortSizes allSizes_orig)
  show "sorted_wrt (\<lambda>a b. actualWidth b \<le> actualWidth a) (sortSizes (allSizes bps ds))"
    by (rule sorted_sortSizes)
  show "walkInv (sortSizes (allSizes bps ds)) None Map.empty"
    by (simp add: walkInv_def mapInv_def)
qed

lemma consolidatedSizes_dom:
  "dom (consolidatedSizes bps ds t) = keyOf ` set (allSizes bps ds)"
  by (simp add: consolidatedSizes_def consolidateLoop_dom set_sortSizes)

text \<open>
  Claim C8.  For every list of bps, every list of densities and every threshold
  (in particular every threshold in the interval from 0, excluded, to 1), each entry of
  the consolidated size map, stored under the key of a nominal width \<open>w\<close> and a
  density \<open>d\<close>, has an actual width of at least \<open>round (w * d)\<close>, the actual width
  the entry was enumerated with.
\<close>

theorem consolidated_width_ge_requested:
  "consolidatedSizes bps dens thr (sizeSpecKey w d) = Some s
   \<Longrightarrow> Math_round (w * d) \<le> actualWidth s"
  using consolidatedSizes_mapInv[of bps dens thr]
  unfolding mapInv_def orig_def sizeSpecKey_def by fastforce

text \<open>
  Two bps of widths 300 and 320 with the densities 1 and 2 and the threshold 0.8:
  the entry 300 at density 2 (600 pixels) is absorbed by 320 at density 2 (640 pixels).
\<close>

theorem consolidated_width_ge_requested_witness:
  "consolidatedSizes [\<lparr>maxWidth = Some 600, imageWidth = 300\<rparr>, \<lparr>maxWidth = None, imageWidth = 320\<rparr>] [1, 2] (4 / 5) (sizeSpecKey 300 2)
     = Some \<lparr>density = 2, width = 300, actualWidth = 640\<rparr> \<and>
   Math_round (300 * 2) \<le> actualWidth \<lparr>density = 2, width = 300, actualWidth = 640\<rparr>"
proof -
  have h: "consolidatedSizes [\<lparr>maxWidth = Some 600, imageWidth = 300\<rparr>, \<lparr>maxWidth = None, imageWidth = 320\<rparr>] [1, 2] (4 / 5) (sizeSpecKey 300 2)
     = Some \<lparr>density = 2, width = 300, actualWidth = 640\<rparr>"
    by code_simp
  show ?thesis using h consolidated_width_ge_requested[OF h] by simp
qed

text \<open>
  Claim C10.  For every bps list, densities list and threshold, the actual width
  stored in any entry of the consolidated size map is \<open>round (imageWidth * density)\<close>
  of an enumerated pair of a breakpoint and a density.  That pair's own width is at
  least the width the entry was enumerated with, and the map records the pair itself
  with its width unchanged: consolidation never invents a width.
\<close>

theorem consolidated_width_is_enumerated:
  assumes "consolidatedSizes bps dens thr (sizeSpecKey w d) = Some s"
  shows "\<exists>b\<in>set bps. \<exists>d'\<in>set dens.
           actualWidth s = Math_round (imageWidth b * d') \<and>
           Math_round (w * d) \<le> Math_round (imageWidth b * d') \<and>
           (\<exists>s'. consolidatedSizes bps dens thr
                   (sizeSpecKey (imageWidth b) d') = Some s' \<and>
                 actualWidth s' = Math_round (imageWidth b * d'))"
proof -
  let ?m = "consolidatedSizes bps dens thr"
  from consolidatedSizes_mapInv[of bps dens thr] assms
  obtain k' s' where k': "?m k' = Some s'" "actualWidth s' = orig k'" "orig k' = actualWidth s"
    and ge: "orig (sizeSpecKey w d) \<le> actualWidth s"
    unfolding mapInv_def by blast
  from k'(1) have "k' \<in> dom ?m" by blast
  then obtain x where x: "x \<in> set (allSizes bps dens)" "k' = keyOf x"
    unfolding consolidatedSizes_dom by blast
  then obtain b d' where bd: "b \<in> set bps" "d' \<in> set dens"
    "x = \<lparr>density = d', width = imageWidth b, actualWidth = Math_round (imageWidth b * d')\<rparr>"
    unfolding allSizes_iff by blast
  have kk: "k' = sizeSpecKey (imageWidth b) d'" using x(2) bd(3) by (simp add: keyOf_def)
  have ok: "orig k' = Math_round (imageWidth b * d')"
    unfolding kk by (simp add: orig_def sizeSpecKey_def)
  have "actualWidth s = Math_round (imageWidth b * d')" using k'(3) ok by simp
  moreover have "Math_round (w * d) \<le> Math_round (imageWidth b * d')"
    using ge k'(3) ok by (simp add: orig_def sizeSpecKey_def)
  moreover have "\<exists>s'. ?m (sizeSpecKey (imageWidth b) d') = Some s' \<and>
                 actualWidth s' = Math_round (imageWidth b * d')"
    using k'(1,2) ok kk by auto
  ultimately show ?thesis using bd(1,2) by blast
qed

theorem consolidated_width_is_enumerated_witness:
  "consolidatedSizes [\<lparr>maxWidth = Some 600, imageWidth = 300\<rparr>, \<lparr>maxWidth = None, imageWidth = 320\<rparr>] [1, 2] (4 / 5) (sizeSpecKey 300 1)
     = Some \<lparr>density = 1, width = 300, actualWidth = 320\<rparr> \<and>
   (\<exists>b\<in>set [\<lparr>maxWidth = Some 600, imageWidth = 300\<rparr>, \<lparr>maxWidth = None, imageWidth = 320\<rparr>]. \<exists>d'\<in>set [1, 2].
      (320 :: int) = Math_round (imageWidth b * d') \<and>
      Math_round (300 * 1) \<le> Math_round (imageWidth b * d') \<and>
      (\<exists>s'. consolidatedSizes [\<lparr>maxWidth = Some 600, imageWidth = 300\<rparr>, \<lparr>maxWidth = None, imageWidth = 320\<rparr>] [1, 2] (4 / 5) (sizeSpecKey (imageWidth b) d') = Some s' \<and>
            actualWidth s' = Math_round (imageWidth b * d')))"
proof -
  have h: "consolidatedSizes [\<lparr>maxWidth = Some 600, imageWidth = 300\<rparr>, \<lparr>maxWidth = None, imageWidth = 320\<rparr>] [1, 2] (4 / 5) (sizeSpecKey 300 1)
     = Some \<lparr>density = 1, width = 300, actualWidth = 320\<rparr>"
    by code_simp
  show ?thesis using h consolidated_width_is_enumerated[OF h] by simp
qed

lemma strict_desc:
  "sorted_wrt (\<lambda>a b. b \<le> a) (ws :: int list) \<Longrightarrow> distinct ws \<Longrightarrow>
   sorted_wrt (\<lambda>a b. b < a) ws"
  by (induction ws) (auto simp: order.strict_iff_order)

lemma consolidateLoop_no_merge:
  assumes "sorted_wrt (\<lambda>a b. actualWidth b < actualWidth a) xs"
    and "\<forall>x\<in>set xs. actualWidth x = orig (keyOf x)"
    and "\<And>l. lu = Some l \<Longrightarrow> \<forall>x\<in>set xs. actualWidth x < actualWidth l"
    and "y \<in> set xs"
  shows "consolidateLoop 1 xs lu m (keyOf y) = Some y"
  using assms
proof (induction xs arbitrary: lu m)
  case Nil
  then show ?case by simp
next
  case (Cons x rest)
  have step: "consolidateLoop 1 (x # rest) lu m =
              consolidateLoop 1 rest (Some x) (m(keyOf x \<mapsto> x))"
  proof (cases lu)
    case None
    show ?thesis unfolding None by (rule consolidateLoop_Cons_None)
  next
    case (Some l)
    then have "actualWidth x < actualWidth l" using Cons.prems(3) by simp
    then have "\<not> of_int (actualWidth l) * (1::rat) \<le> of_int (actualWidth x)" by simp
    then show ?thesis unfolding Some by (rule consolidateLoop_Cons_new)
  qed
  have lt: "\<forall>z\<in>set rest. actualWidth z < actualWidth x" using Cons.prems(1) by simp
  have r1: "sorted_wrt (\<lambda>a b. actualWidth b < actualWidth a) rest" using Cons.prems(1) by simp
  have r2: "\<forall>x\<in>set rest. actualWidth x = orig (keyOf x)" using Cons.prems(2) by simp
  show ?case
  proof (cases "y \<in> set rest")
    case True
    show ?thesis unfolding step
      by (rule Cons.IH[OF r1 r2 _ True]) (use lt in simp)
  next
    case False
    then have yx: "y = x" using Cons.prems(4) by simp
    have "keyOf x \<notin> keyOf ` set rest"
    proof
      assume "keyOf x \<in> keyOf ` set rest"
      then obtain z where z: "z \<in> set rest" "keyOf z = keyOf x" by auto
      then have "actualWidth z = actualWidth x" using Cons.prems(2) by simp
      then show False using lt z(1) by auto
    qed
    then show ?thesis unfolding step yx by (simp add: consolidateLoop_other)
  qed
qed

text \<open>
  Claim C9.  When the actual widths enumerated from the bps and the densities
  are pairwise distinct, consolidation with threshold 1 is the identity: every
  enumerated pair is stored with its own, unconsolidated actual width.
\<close>

theorem consolidation_identity_at_threshold_one:
  assumes dist: "distinct (map actualWidth (allSizes bps dens))"
    and b: "b \<in> set bps" and d: "d \<in> set dens"
  shows "consolidatedSizes bps dens 1 (sizeSpecKey (imageWidth b) d) =
           Some \<lparr>density = d, width = imageWidth b,
                  actualWidth = Math_round (imageWidth b * d)\<rparr>"
proof -
  let ?all = "allSizes bps dens"
  let ?y = "\<lparr>density = d, width = imageWidth b, actualWidth = Math_round (imageWidth b * d)\<rparr>"
  have y: "?y \<in> set (sortSizes ?all)"
    unfolding set_sortSizes allSizes_iff using b d by blast
  have inj: "inj_on actualWidth (set ?all)" and dall: "distinct ?all"
    using dist by (auto simp: distinct_map)
  have "distinct (map actualWidth (sortSizes ?all))"
    using inj dall by (simp add: distinct_map sortSizes_def)
  moreover have "sorted_wrt (\<lambda>a b. b \<le> a) (map actualWidth (sortSizes ?all))"
    using sorted_sortSizes[of ?all] by (simp add: sorted_wrt_map)
  ultimately have "sorted_wrt (\<lambda>a b. b < a) (map actualWidth (sortSizes ?all))"
    by (simp add: strict_desc)
  then have strict: "sorted_wrt (\<lambda>a b. actualWidth b < actualWidth a) (sortSizes ?all)"
    by (simp add: sorted_wrt_map)
  have "consolidateLoop 1 (sortSizes ?all) None Map.empty (keyOf ?y) = Some ?y"
    by (rule consolidateLoop_no_merge[OF strict _ _ y])
       (simp_all add: set_sortSizes allSizes_orig)
  then show ?thesis by (simp add: consolidatedSizes_def keyOf_def)
qed

theorem consolidation_identity_at_threshold_one_witness:
  "distinct (map actualWidth (allSizes [\<lparr>maxWidth = Some 600, imageWidth = 300\<rparr>, \<lparr>maxWidth = None, imageWidth = 1200\<rparr>] [1, 2])) \<and>
   consolidatedSizes [\<lparr>maxWidth = Some 600, imageWidth = 300\<rparr>, \<lparr>maxWidth = None, imageWidth = 1200\<rparr>] [1, 2] 1 (sizeSpecKey 300 2)
     = Some \<lparr>density = 2, width = 300, actualWidth = 600\<rparr>"
proof -
  have d: "distinct (map actualWidth (allSizes [\<lparr>maxWidth = Some 600, imageWidth = 300\<rparr>, \<lparr>maxWidth = None, imageWidth = 1200\<rparr>] [1, 2]))"
    by code_simp
  have r: "Math_round (300 * 2) = 600"
    by code_simp
  show ?thesis
    using d r consolidation_identity_at_threshold_one[OF d,
        of "\<lparr>maxWidth = Some 600, imageWidth = 300\<rparr>" 2]
    by simp
qed

section \<open>Properties of the stores\<close>

lemma Storage_getData_data:
  "Storage_getData l opts False st = (m, st1) \<Longrightarrow> data st1 = Some m"
  by (auto simp: Storage_getData_def split: option.splits prod.splits)

lemma Storage_getData_idem:
  "Storage_getData l opts False st = (m, st1) \<Longrightarrow> Storage_getData l opts False st1 = (m, st1)"
  by (auto simp: Storage_getData_def split: option.splits prod.splits)

lemma delete_absent: "map_of m key = None \<Longrightarrow> AList.delete key m = m"
  by (simp add: delete_notin_dom map_of_eq_None_iff AList.delete_idem)

text \<open>
  On a missing entry both stores run the factory, delete the placeholder and throw the
  \<open>TypeError\<close>, whatever the factory does; the state is as it was before the call
  (the runtime store) or as it is after loading (the storage store).
\<close>

lemma Runtime_getOrCreate_miss:
  assumes "rdata key = None"
  shows "Runtime_getOrCreate key factory (rdata, w) =
           (Inl resolveTypeError, rdata, snd (factory key w))"
  using assms
  by (cases "factory key w") (auto simp: Runtime_getOrCreate_def fun_upd_idem split: sum.splits)

lemma Storage_getOrCreate_miss:
  assumes gd: "Storage_getData l opts False st = (m, st1)" and ab: "map_of m key = None"
  shows "Storage_getOrCreate l opts key factory (st, w) =
           (Inl resolveTypeError, st1, snd (factory key w))"
proof -
  have d: "data st1 = Some m" by (rule Storage_getData_data[OF gd])
  then have st1: "st1\<lparr>data := Some m\<rparr> = st1" by simp
  show ?thesis using gd ab st1
    by (cases "factory key w")
       (auto simp: Storage_getOrCreate_def delete_absent split: sum.splits)
qed

text \<open>
  Claim C5 fails on the code in its last part.  A \<open>getOrCreate\<close> for the absent key
  \<open>k2\<close> runs a factory that throws \<open>Error boom\<close>.  The entry is removed, as the claim
  says: the machine shows the placeholder stored after the first job and gone when the
  queue is empty, and both stores end without an entry for the key.  But the caller
  does not receive the factory's exception: line 49 (line 152 in the storage store)
  throws the \<open>TypeError\<close> of \<open>promise.resolve\<close> before \<open>throw e\<close> is reached.
\<close>

theorem factory_error_replaced_by_TypeError:
  \<open>fst (failingFactory ''k2'' 0) = Inl (Error ''boom'') \<and>
   resolveTypeError \<noteq> Error ''boom'' \<and>
   fst (Runtime_getOrCreate ''k2'' failingFactory (exampleRuntime, 0)) = Inl resolveTypeError \<and>
   fst (snd (Runtime_getOrCreate ''k2'' failingFactory (exampleRuntime, 0))) ''k2'' = None \<and>
   snd (snd (Runtime_getOrCreate ''k2'' failingFactory (exampleRuntime, 0))) = 1 \<and>
   Storage_getOrCreate exampleLib exampleOptions ''k2'' failingFactory
       (exampleStorage ''{"k":"v"}'', 0) =
     (Inl resolveTypeError, (exampleStorage ''{"k":"v"}'')\<lparr>data := Some [(''k'', Str ''v'')]\<rparr>, 1) \<and>
   (let m1 = runQueue (\<lambda>key. Inl (Error ''boom'')) 1 (callGetOrCreate ''k2'' newStore);
        m2 = runQueue (\<lambda>key. Inl (Error ''boom'')) 10 m1
    in m_data m1 ''k2'' = Some (Rejected deferRejection) \<and>
       m_data m2 ''k2'' = None \<and>
       m_queue m2 = [] \<and>
       m_factoryCalls m2 = [''k2''] \<and>
       map c_pc (m_calls m2) = [Thrown resolveTypeError])\<close>
  by code_simp

text \<open>
  Claim C6 fails on the code for a blob that holds a JSON array of strings: the array
  passes the \<open>typeof data !== "object"\<close> test and has no member that is not a string,
  so \<open>getData\<close> neither calls \<open>onLoadError\<close> nor logs, and it yields a map that is not
  empty, with the indices as keys.
\<close>

theorem array_blob_loads_without_report:
  \<open>JSON_parse exampleLib ''["a"]'' = Inr (JArray [JString ''a'']) \<and>
   Storage_getData exampleLib exampleOptions False (exampleStorage ''["a"]'') =
     ([(''0'', Str ''a'')], (exampleStorage ''["a"]'')\<lparr>data := Some [(''0'', Str ''a'')]\<rparr>) \<and>
   trace ((exampleStorage ''["a"]'')\<lparr>data := Some [(''0'', Str ''a'')]\<rparr>) = []\<close>
  by code_simp

text \<open>
  What holds of \<open>getData\<close>: it returns a map whatever the blob holds, and when the
  \<open>try\<close> block throws, it returns the empty map and reports the error once, to
  \<open>onLoadError\<close> if there is one and else to \<open>console.error\<close>.  The \<open>try\<close> block throws
  when the blob cannot be read or parsed, and when the parsed value is neither an
  object nor an array or has a member that is not a string.
\<close>

lemma reportLoadError_first:
  "\<exists>es. reportLoadError opts e =
          (case onLoadError opts of Some h \<Rightarrow> CalledOnLoadError e | None \<Rightarrow> ConsoleLoadError e) # es"
  by (simp add: reportLoadError_def split: option.splits)

lemma load_failure_recovered:
  assumes "readEntries l (storageBlob st) = Inl e"
  shows "Storage_getData l opts True st =
           ([], (emit (reportLoadError opts e) st)\<lparr>data := Some []\<rparr>)"
  using assms by (simp add: Storage_getData_def Storage_load_def)

lemma readEntries_fails_iff:
  "(\<exists>e. readEntries l b = Inl e) \<longleftrightarrow>
     (case readUtf8 b of
        Inl e \<Rightarrow> True
      | Inr text \<Rightarrow>
          (case JSON_parse l text of
             Inl e \<Rightarrow> True
           | Inr (JObject kvs) \<Rightarrow> list_ex (\<lambda>x. \<not> typeof_string x) (map snd kvs)
           | Inr (JArray xs) \<Rightarrow> list_ex (\<lambda>x. \<not> typeof_string x) xs
           | Inr other \<Rightarrow> True))"
  by (auto simp: readEntries_def Object_values_def split: sum.splits json.splits)










section \<open>Properties of the orchestrator\<close>

text \<open>
  Claim C2 fails on the code.  The runtime store has been filled by \<open>set\<close> with an entry
  for each of the two widths of the example request.  The request is served from the
  store alone: no factory runs and no file is written.  Yet the response has
  \<open>generated = 2\<close> and \<open>cached = 0\<close>.  The values of \<open>statsGeneratedUrls\<close> are the
  \<open>isCached\<close> flags, and \<open>generated\<close> counts the flags that are true.
\<close>

theorem cache_hits_counted_as_generated:
  "(case processImageRequest exampleEnv exampleRequest Runtime_getOrCreate
           (bytesKeyedStore, exampleWorld) of
      (Inr resp, rdata, w) \<Rightarrow> generated resp = 2 \<and> cached resp = 0 \<and> outputs w = []
    | (Inl e, rdata, w) \<Rightarrow> False)"
  by code_simp

text \<open>
  From an empty store the same request is rejected: the first transform misses, its
  factory runs, and \<open>getOrCreate\<close> throws the \<open>TypeError\<close> of \<open>promise.resolve\<close>.
\<close>

lemma miss_rejects_request:
  "fst (processImageRequest exampleEnv exampleRequest Runtime_getOrCreate
          (Map.empty, exampleWorld)) = Inl resolveTypeError"
  by code_simp

text \<open>
  The two counters in general: \<open>generated\<close> is the number of recorded sources whose
  flag \<open>isCached\<close> is true, \<open>cached\<close> the number of those whose flag is false.
\<close>

lemma counters_swapped:
  "countGenerated stats = length (filter (\<lambda>(src, isC). isC) stats) \<and>
   countCached stats = length (filter (\<lambda>(src, isC). \<not> isC) stats)"
  by (induction stats) (auto simp: countGenerated_def countCached_def)

text \<open>
  The same for every request and every environment: when the runtime store holds an
  entry for the key of every consolidated width, a run that returns a response leaves
  the store and the written files as they were, and reports every source of the
  response as generated and none as cached.
\<close>

lemma transformSingleImage_hit:
  assumes "rdata (cacheKey ev req aw None) \<noteq> None"
    and "transformSingleImage ev req Runtime_getOrCreate ib aw None (rdata, w) = (Inr (c, a), st', w')"
  shows "c \<and> st' = rdata \<and> outputs w' = outputs w"
  using assms
  by (auto simp: transformSingleImage_def Runtime_getOrCreate_def
           split: option.splits val.splits sum.splits if_splits)

lemma list_all_update:
  "list_all snd xs \<Longrightarrow> list_all snd (AList.update k True xs)"
  by (induction xs) auto

lemma transform_hit:
  assumes "rdata (cacheKey ev req (actualWidth sp) None) \<noteq> None"
    and "hitRun rdata w0 r"
    and "transform ev req Runtime_getOrCreate ib sp r = (Inr (src, x), r')"
  shows "hitRun rdata w0 r' \<and> statSrcs r' = insert src (statSrcs r)"
proof -
  obtain res st' w' where t: "transformSingleImage ev req Runtime_getOrCreate ib (actualWidth sp) None
             (store r, wrld r) = (res, st', w')"
    by (metis prod_cases3)
  from assms(3) t obtain c a where res: "res = Inr (c, a)"
    by (cases res) (auto simp: transform_def)
  from assms(2) have s: "store r = rdata" by (simp add: hitRun_def)
  from transformSingleImage_hit[OF assms(1) t[unfolded s res]]
  have c: c and st: "st' = rdata" and o: "outputs w' = outputs (wrld r)" by auto
  obtain w h where a: "a = (src, w, h)" and
    r': "r' = r\<lparr>store := st', wrld := w',
             statsGeneratedUrls := AList.update src c (statsGeneratedUrls r)\<rparr>"
    using assms(3) t res by (cases a) (auto simp: transform_def)
  show ?thesis using assms(2) c st o
    by (auto simp: r' hitRun_def statSrcs_def list_all_update distinct_update dom_update)
qed

lemma densityTask_hit:
  assumes hits: "\<And>sp. consolidated (sizeSpecKey bw d) = Some sp \<Longrightarrow>
                      rdata (cacheKey ev req (actualWidth sp) None) \<noteq> None"
    and "hitRun rdata w0 r"
    and "densityTask ev req Runtime_getOrCreate ib consolidated bw d r = (Inr a, r')"
  shows "hitRun rdata w0 r' \<and> statSrcs r' = insert (isa_src a) (statSrcs r)"
proof -
  from assms(3) obtain sp where sp: "consolidated (sizeSpecKey bw d) = Some sp"
    by (auto simp: densityTask_def split: option.splits)
  obtain res r1 where t: "transform ev req Runtime_getOrCreate ib sp r = (res, r1)"
    by (cases "transform ev req Runtime_getOrCreate ib sp r")
  from assms(3) sp t obtain src w h ad where res: "res = Inr (src, w, h, ad)"
    by (cases res) (auto simp: densityTask_def)
  from transform_hit[OF hits[OF sp] assms(2) t[unfolded res]]
  have h1: "hitRun rdata w0 r1" and s1: "statSrcs r1 = insert src (statSrcs r)" by auto
  from assms(3) sp t res have a: "isa_src a = src"
    and r': "r' = r1 \<or> (\<exists>x. r' = r1\<lparr>aspectRatio := x\<rparr>)"
    by (auto simp: densityTask_def split: if_splits)
  from r' have e: "statsGeneratedUrls r' = statsGeneratedUrls r1" "store r' = store r1"
    "wrld r' = wrld r1" by auto
  show ?thesis using h1 s1 a e by (simp add: hitRun_def statSrcs_def)
qed

lemma promiseAllSequential_inv:
  assumes step: "\<And>f r x r'. f \<in> set fs \<Longrightarrow> J r \<Longrightarrow> f r = (Inr x, r') \<Longrightarrow>
                   J r' \<and> S r' = S r \<union> g x"
    and "J r"
    and "promiseAllSequential fs r = (Inr xs, r')"
  shows "J r' \<and> S r' = S r \<union> (\<Union>x\<in>set xs. g x)"
  using assms
proof (induction fs arbitrary: r xs r')
  case Nil
  then show ?case by simp
next
  case (Cons f fs)
  obtain res r1 where f: "f r = (res, r1)" by (cases "f r")
  from Cons.prems(3) f obtain x where res: "res = Inr x" by (cases res) auto
  obtain res2 r2 where p: "promiseAllSequential fs r1 = (res2, r2)"
    by (cases "promiseAllSequential fs r1")
  from Cons.prems(3) f res p obtain ys where res2: "res2 = Inr ys" and xs: "xs = x # ys"
    and r': "r' = r2"
    by (cases res2) auto
  from Cons.prems(1)[of f r x r1] Cons.prems(2) f res
  have j1: "J r1" and s1: "S r1 = S r \<union> g x" by auto
  have st: "J b \<and> S b = S a \<union> g y" if "h \<in> set fs" "J a" "h a = (Inr y, b)" for h a y b
    using Cons.prems(1)[of h a y b] that by simp
  have "J r2 \<and> S r2 = S r1 \<union> (\<Union>x\<in>set ys. g x)"
    by (rule Cons.IH[OF st j1 p[unfolded res2]])
  then show ?case using s1 xs r' by auto
qed

lemma uniqueLoop_srcs:
  "set seen = isa_src ` set u \<Longrightarrow>
   isa_src ` set (uniqueLoop xs u seen) = isa_src ` set u \<union> isa_src ` set xs"
  by (induction xs u seen rule: uniqueLoop.induct) auto

lemma getUniqueImages_srcs: "isa_src ` set (getUniqueImages xs) = isa_src ` set xs"
  by (simp add: getUniqueImages_def uniqueLoop_srcs)

lemma transformForDensities_hit:
  assumes hits: "\<And>d sp. d \<in> set (pixelDensities req) \<Longrightarrow>
                      consolidated (sizeSpecKey bw d) = Some sp \<Longrightarrow>
                      rdata (cacheKey ev req (actualWidth sp) None) \<noteq> None"
    and "hitRun rdata w0 r"
    and "transformForDensities ev req Runtime_getOrCreate ib consolidated bw r = (Inr as, r')"
  shows "hitRun rdata w0 r' \<and> statSrcs r' = statSrcs r \<union> isa_src ` set as"
proof -
  let ?fs = "map (densityTask ev req Runtime_getOrCreate ib consolidated bw) (pixelDensities req)"
  obtain res r1 where p: "promiseAllSequential ?fs r = (res, r1)"
    by (cases "promiseAllSequential ?fs r")
  from assms(3) p obtain images where res: "res = Inr images"
    and as: "as = getUniqueImages images" and r': "r' = r1"
    by (cases res) (auto simp: transformForDensities_def)
  have "hitRun rdata w0 r1 \<and> statSrcs r1 = statSrcs r \<union> (\<Union>x\<in>set images. {isa_src x})"
  proof (rule promiseAllSequential_inv[where J = "hitRun rdata w0" and S = statSrcs
        and g = "\<lambda>x. {isa_src x}", OF _ assms(2) p[unfolded res]])
    fix f r x r'
    assume "f \<in> set ?fs" "hitRun rdata w0 r" "f r = (Inr x, r')"
    then obtain d where d: "d \<in> set (pixelDensities req)"
      and f: "densityTask ev req Runtime_getOrCreate ib consolidated bw d r = (Inr x, r')"
      by auto
    from densityTask_hit[OF hits[OF d] \<open>hitRun rdata w0 r\<close> f]
    show "hitRun rdata w0 r' \<and> statSrcs r' = statSrcs r \<union> {isa_src x}" by simp
  qed
  then show ?thesis using as r' getUniqueImages_srcs[of images] by auto
qed

lemma all_true_counts:
  "list_all snd stats \<Longrightarrow> countGenerated stats = length stats \<and> countCached stats = 0"
  by (induction stats) (auto simp: countGenerated_def countCached_def)

lemma all_hits_counted_as_generated:
  assumes hits: "\<And>b d sp. b \<in> set (breakpoints req) \<Longrightarrow> d \<in> set (pixelDensities req) \<Longrightarrow>
        consolidatedSizes (breakpoints req) (pixelDensities req) (sizeThreshold req)
          (sizeSpecKey (imageWidth b) d) = Some sp \<Longrightarrow>
        rdata (cacheKey ev req (actualWidth sp) None) \<noteq> None"
    and res: "processImageRequest ev req Runtime_getOrCreate (rdata, w) = (Inr resp, rdata', w')"
  shows "generated resp = card (responseSrcs resp) \<and> cached resp = 0 \<and>
         rdata' = rdata \<and> outputs w' = outputs w"
proof -
  let ?cons = "consolidatedSizes (breakpoints req) (pixelDensities req) (sizeThreshold req)"
  let ?r0 = "\<lparr>store = rdata, wrld = w, statsGeneratedUrls = [], aspectRatio = None\<rparr>"
  from res obtain ib where ib: "(case inputImage req of Path p \<Rightarrow> readFile ev p | Bytes b \<Rightarrow> Inr b) = Inr ib"
    by (auto simp: processImageRequest_def split: if_splits sum.splits)
  from res ib obtain fb where fb: "find (\<lambda>b. maxWidth b = None) (breakpoints req) = Some fb"
    by (auto simp: processImageRequest_def Let_def split: if_splits option.splits)
  then have fbin: "fb \<in> set (breakpoints req)"
    by (auto simp: find_Some_iff)
  let ?fs = "map (sourceTask ev req Runtime_getOrCreate ib ?cons)
               (filter (\<lambda>b. maxWidth b \<noteq> None) (breakpoints req))"
  obtain x1 r1 where p1: "promiseAllSequential ?fs ?r0 = (x1, r1)"
    by (cases "promiseAllSequential ?fs ?r0")
  from res ib fb p1 obtain srcs where x1: "x1 = Inr srcs"
    by (cases x1) (auto simp: processImageRequest_def Let_def split: if_splits)
  obtain x2 r2 where p2: "transformForDensities ev req Runtime_getOrCreate ib ?cons (imageWidth fb) r1 = (x2, r2)"
    by (cases "transformForDensities ev req Runtime_getOrCreate ib ?cons (imageWidth fb) r1")
  from res ib fb p1 x1 p2 obtain fbi where x2: "x2 = Inr fbi"
    by (cases x2) (auto simp: processImageRequest_def Let_def split: if_splits)
  from res ib fb p1 x1 p2 x2 have
    resp: "sources (imageSet resp) = srcs" "img (imageSet resp) = fbi"
      "generated resp = countGenerated (statsGeneratedUrls r2)"
      "cached resp = countCached (statsGeneratedUrls r2)"
    and fin: "rdata' = store r2" "w' = wrld r2"
    by (auto simp: processImageRequest_def Let_def split: if_splits option.splits)
  have h0: "hitRun rdata w ?r0" by (simp add: hitRun_def)
  have j1: "hitRun rdata w r1 \<and>
            statSrcs r1 = statSrcs ?r0 \<union> (\<Union>s\<in>set srcs. isa_src ` set (iss_srcset s))"
  proof (rule promiseAllSequential_inv[where J = "hitRun rdata w" and S = statSrcs
        and g = "\<lambda>s. isa_src ` set (iss_srcset s)", OF _ h0 p1[unfolded x1]])
    fix f r x r'
    assume fin: "f \<in> set ?fs" and hr: "hitRun rdata w r" and fr: "f r = (Inr x, r')"
    then obtain b where b: "b \<in> set (breakpoints req)"
      and f: "sourceTask ev req Runtime_getOrCreate ib ?cons b r = (Inr x, r')"
      by auto
    obtain y r'' where t: "transformForDensities ev req Runtime_getOrCreate ib ?cons (imageWidth b) r = (y, r'')"
      by (cases "transformForDensities ev req Runtime_getOrCreate ib ?cons (imageWidth b) r")
    from f t obtain as where y: "y = Inr as" and x: "iss_srcset x = as" and rr: "r'' = r'"
      by (cases y) (auto simp: sourceTask_def)
    from transformForDensities_hit[OF hits[OF b] hr t[unfolded y]]
    show "hitRun rdata w r' \<and> statSrcs r' = statSrcs r \<union> isa_src ` set (iss_srcset x)"
      using x rr by simp
  qed
  from transformForDensities_hit[OF hits[OF fbin] conjunct1[OF j1] p2[unfolded x2]]
  have j2: "hitRun rdata w r2" and s2: "statSrcs r2 = statSrcs r1 \<union> isa_src ` set fbi"
    by auto
  have srcs: "statSrcs r2 = responseSrcs resp"
    using s2 j1 resp by (auto simp: responseSrcs_def statSrcs_def)
  from j2 have d: "distinct (map fst (statsGeneratedUrls r2))"
    and a: "list_all snd (statsGeneratedUrls r2)" by (auto simp: hitRun_def)
  have "card (statSrcs r2) = length (statsGeneratedUrls r2)"
    using distinct_card[OF d] by (simp add: statSrcs_def)
  then show ?thesis
    using all_true_counts[OF a] srcs resp fin j2 by (simp add: hitRun_def)
qed

text \<open>
  Claim C3 fails on the code for an input given as a path.  The file \<open>photo.jpg\<close>
  holds the bytes \<open>IMG\<close>.  The key of the request for \<open>photo.jpg\<close> is made of the hash
  of the path, which differs from the key of the request for the bytes themselves.  The
  entries stored under the hash of the bytes are not found under the key of the path
  request, while a store whose entries stand under the hash of the path serves the
  request without running a factory.
\<close>

theorem path_input_keyed_by_hash_of_path:
  "readFile exampleEnv ''photo.jpg'' = Inr ''IMG'' \<and>
   cacheKey exampleEnv (exampleRequest\<lparr>inputImage := Path ''photo.jpg''\<rparr>) 640 None
     = exampleHash ''photo.jpg'' @ ''@640:'' \<and>
   cacheKey exampleEnv (exampleRequest\<lparr>inputImage := Bytes ''IMG''\<rparr>) 640 None
     = exampleHash ''IMG'' @ ''@640:'' \<and>
   exampleHash ''photo.jpg'' \<noteq> exampleHash ''IMG'' \<and>
   bytesKeyedStore (exampleHash ''IMG'' @ ''@640:'') \<noteq> None \<and>
   bytesKeyedStore
     (cacheKey exampleEnv (exampleRequest\<lparr>inputImage := Path ''photo.jpg''\<rparr>) 640 None) = None \<and>
   (case processImageRequest exampleEnv (exampleRequest\<lparr>inputImage := Path ''photo.jpg''\<rparr>)
           Runtime_getOrCreate (pathKeyedStore, exampleWorld) of
      (Inr resp, rdata, w) \<Rightarrow> outputs w = []
    | (Inl e, rdata, w) \<Rightarrow> False)"
  by code_simp

text \<open>
  The key in general: the hash is taken of the bytes for an input given as bytes, and
  of the path itself for an input given as a path.
\<close>

lemma cacheKey_of_input:
  "cacheKey ev (req\<lparr>inputImage := Bytes b\<rparr>) w None = sha256hex ev b @ ''@'' @ showInt w @ '':'' \<and>
   cacheKey ev (req\<lparr>inputImage := Path p\<rparr>) w None = sha256hex ev p @ ''@'' @ showInt w @ '':''"
  by (simp add: cacheKey_def rawHash_def)

text \<open>
  Claim C4 as stated fails.  For the image the example codec renders at the width 640,
  whose content hash starts with \<open>0f\<close>, the default output name is
  \<open>ab/12cd34ef-64}.webp\<close>: its directory is taken from the hash of the input, not from
  the content hash of the rendered bytes, and its file name holds eight characters of
  that hash and the width divided by ten.
\<close>

theorem default_name_not_from_content_hash:
  "resizeImage exampleEnv ''IMG'' \<lparr>o_width = Some 640, o_height = None, o_quality = None\<rparr> None
     = Inr exampleResized \<and>
   outputNameOf exampleEnv exampleRequest (rawHash exampleEnv exampleRequest) exampleResized
     = ''ab/12cd34ef-64}.webp'' \<and>
   take 2 (ri_hash exampleResized) = ''0f'' \<and>
   take 2 (outputNameOf exampleEnv exampleRequest (rawHash exampleEnv exampleRequest)
             exampleResized) \<noteq> take 2 (ri_hash exampleResized)"
  by code_simp

text \<open>
  Claim C4, amended.  With no \<open>customOutputNameGenerator\<close>, the output name is
  \<open>path.join\<close> of a directory and a file name: the directory is the first two
  characters of the hash of \<open>request.inputImage\<close>, and the file name starts with the
  next eight characters of that hash, a hyphen and the rendered width divided by ten
  and rounded down, and ends with the extension of the rendered image.
\<close>

theorem default_output_name:
  assumes "customOutputNameGenerator req = None"
  shows "\<exists>mid. outputNameOf ev req (rawHash ev req) resizedImage =
           path_join ev (take 2 (rawHash ev req))
             (take 8 (drop 2 (rawHash ev req)) @ ''-'' @
              decimal (ri_width resizedImage div 10) @ mid @ ri_ext resizedImage)"
proof -
  have "outputNameOf ev req (rawHash ev req) resizedImage =
          path_join ev (take 2 (rawHash ev req))
            (take 8 (drop 2 (rawHash ev req)) @ ''-'' @
             decimal (ri_width resizedImage div 10) @ ''}'' @ ri_ext resizedImage)"
    using assms by (simp add: outputNameOf_def defaultOutputName_def Let_def)
  then show ?thesis by (rule exI[where x = "''}''"])
qed

theorem default_output_name_witness:
  "customOutputNameGenerator exampleRequest = None \<and>
   (\<exists>mid. outputNameOf exampleEnv exampleRequest (rawHash exampleEnv exampleRequest)
             exampleResized =
           path_join exampleEnv (take 2 (rawHash exampleEnv exampleRequest))
             (take 8 (drop 2 (rawHash exampleEnv exampleRequest)) @ ''-'' @
              decimal (ri_width exampleResized div 10) @ mid @ ri_ext exampleResized))"
proof -
  have h: "customOutputNameGenerator exampleRequest = None"
    by (simp add: exampleRequest_def)
  from default_output_name[OF h, of exampleEnv exampleResized]
  show ?thesis using h by blast
qed

section \<open>Properties of overlapping calls\<close>

text \<open>
  Claim C1 fails on the code.  Two calls of \<open>getOrCreate\<close> with the same key are issued
  one after the other on a new runtime store, before any job has run.  Each of them
  evaluates \<open>this.data[key]\<close> to \<open>undefined\<close> and is suspended by the \<open>await\<close> of line
  40; when they are resumed, each finds \<open>value === undefined\<close>, stores a placeholder of
  its own and calls the factory.  When the queue is empty the factory has run twice,
  and neither call has returned its value: both have thrown the \<open>TypeError\<close> of
  \<open>promise.resolve\<close>.
\<close>

theorem overlapping_calls_run_factory_twice:
  "(let m = runQueue (\<lambda>key. Inr (Str ''v'')) 10
              (callGetOrCreate ''k'' (callGetOrCreate ''k'' newStore))
    in m_factoryCalls m = [''k'', ''k''] \<and>
       m_queue m = [] \<and>
       map c_pc (m_calls m) = [Thrown resolveTypeError, Thrown resolveTypeError])"
  by code_simp

text \<open>
  A call that arrives once the first call has stored its placeholder (after one job)
  awaits the placeholder, which is rejected: the factory runs once, the first call
  throws the \<open>TypeError\<close> and the second the exception of \<open>defer\<close>.
\<close>

lemma later_call_rejected_by_placeholder:
  "(let m = runQueue (\<lambda>key. Inr (Str ''v'')) 10
              (callGetOrCreate ''k''
                 (runQueue (\<lambda>key. Inr (Str ''v'')) 1 (callGetOrCreate ''k'' newStore)))
    in m_factoryCalls m = [''k''] \<and>
       m_queue m = [] \<and>
       map c_pc (m_calls m) = [Thrown resolveTypeError, Thrown deferRejection])"
  by code_simp

text \<open>
  The job that delivers the outcome of the factory deletes the entry of the key and
  ends the call with the \<open>TypeError\<close>, whether the factory returned or threw.
\<close>

lemma factory_outcome_deletes_entry:
  assumes "cid < length (m_calls m)" and "c_pc (m_calls m ! cid) = AwaitFactory"
  shows "m_data (runJob factory (FactorySettled cid outcome) m) (c_key (m_calls m ! cid)) = None \<and>
         c_pc (m_calls (runJob factory (FactorySettled cid outcome) m) ! cid) =
           Thrown resolveTypeError"
  using assms
  by (cases outcome) (auto simp: runJob_def setPc_def)

end
